theory Spec2Isabelle
  imports Main
begin

section \<open>Dialect registry (src/utils/index.ts)\<close>

text \<open>
  Strings are lists of characters; the model covers ASCII text. The closed union type
  \<open>EditorType\<close> is a datatype whose constructors follow the declaration order of the
  keys of \<open>EDITOR_CONFIGS\<close>.
\<close>

datatype EditorType = cursor | windsurf | cline | vscode | codex | claude_code | qoder | trae
  | qwencoder

datatype RuleType = always | auto_attached | agent_requested | manual | model_decision
  | glob_pattern | specific_files

record EditorConfig =
  name :: string
  displayName :: string
  fileFormats :: "string list"
  locations :: "string list"
  legacyLocations :: "string list option"
  supportedRuleTypes :: "RuleType list"
  hasGlobSupport :: bool
  hasYamlFrontmatter :: bool
  maxFileSize :: "nat option"
  maxTotalSize :: "nat option"
  aliasDisplayNames :: "string list option"

fun EDITOR_CONFIGS :: "EditorType \<Rightarrow> EditorConfig" where
  "EDITOR_CONFIGS cursor = \<lparr>name = ''cursor'', displayName = ''Cursor'',
     fileFormats = [''.mdc''], locations = [''.cursor/rules/''],
     legacyLocations = Some [''.cursorrules''],
     supportedRuleTypes = [always, auto_attached, agent_requested, manual],
     hasGlobSupport = True, hasYamlFrontmatter = True,
     maxFileSize = Some (500 * 80), maxTotalSize = None, aliasDisplayNames = None\<rparr>"
| "EDITOR_CONFIGS windsurf = \<lparr>name = ''windsurf'', displayName = ''Windsurf'',
     fileFormats = [''.md''], locations = [''.windsurf/rules/''],
     legacyLocations = Some [''.windsurfrules''],
     supportedRuleTypes = [manual, model_decision, glob_pattern, always],
     hasGlobSupport = True, hasYamlFrontmatter = True,
     maxFileSize = Some 12000, maxTotalSize = Some 12000, aliasDisplayNames = None\<rparr>"
| "EDITOR_CONFIGS cline = \<lparr>name = ''cline'', displayName = ''Cline'',
     fileFormats = [''.md''], locations = [''.clinerules/'', ''.clinerules''],
     legacyLocations = None,
     supportedRuleTypes = [always, manual],
     hasGlobSupport = False, hasYamlFrontmatter = False,
     maxFileSize = None, maxTotalSize = None, aliasDisplayNames = None\<rparr>"
| "EDITOR_CONFIGS vscode = \<lparr>name = ''vscode'', displayName = ''VSCode'',
     fileFormats = [''.md'', ''.json''],
     locations = [''.github/instructions/'', ''.github/prompts/'', ''src/*/instructions/''],
     legacyLocations = None,
     supportedRuleTypes = [glob_pattern, always],
     hasGlobSupport = True, hasYamlFrontmatter = True,
     maxFileSize = None, maxTotalSize = None, aliasDisplayNames = None\<rparr>"
| "EDITOR_CONFIGS codex = \<lparr>name = ''codex'', displayName = ''Codex CLI'',
     fileFormats = [''.md''], locations = [''AGENTS.md''],
     legacyLocations = None,
     supportedRuleTypes = [always],
     hasGlobSupport = False, hasYamlFrontmatter = False,
     maxFileSize = None, maxTotalSize = None,
     aliasDisplayNames = Some [''OpenCode'', ''VSCode Agents'', ''AGENTS.md Compatible'']\<rparr>"
| "EDITOR_CONFIGS claude_code = \<lparr>name = ''claude-code'', displayName = ''Claude Code'',
     fileFormats = [''.md''], locations = [''CLAUDE.md''],
     legacyLocations = None,
     supportedRuleTypes = [always, manual],
     hasGlobSupport = False, hasYamlFrontmatter = False,
     maxFileSize = None, maxTotalSize = None, aliasDisplayNames = None\<rparr>"
| "EDITOR_CONFIGS qoder = \<lparr>name = ''qoder'', displayName = ''Qoder'',
     fileFormats = [''.md''], locations = [''.qoder/rules/''],
     legacyLocations = None,
     supportedRuleTypes = [manual, model_decision, always, specific_files],
     hasGlobSupport = True, hasYamlFrontmatter = True,
     maxFileSize = None, maxTotalSize = Some 100000, aliasDisplayNames = None\<rparr>"
| "EDITOR_CONFIGS trae = \<lparr>name = ''trae'', displayName = ''Trae'',
     fileFormats = [''.md''], locations = [''.trae/rules/''],
     legacyLocations = Some [''.cursorrules''],
     supportedRuleTypes = [always, glob_pattern, manual],
     hasGlobSupport = True, hasYamlFrontmatter = True,
     maxFileSize = None, maxTotalSize = None, aliasDisplayNames = None\<rparr>"
| "EDITOR_CONFIGS qwencoder = \<lparr>name = ''qwencoder'', displayName = ''QwenCoder'',
     fileFormats = [''.md''], locations = [''QWEN.md''],
     legacyLocations = None,
     supportedRuleTypes = [always],
     hasGlobSupport = False, hasYamlFrontmatter = False,
     maxFileSize = None, maxTotalSize = None, aliasDisplayNames = None\<rparr>"

text \<open>\<open>Object.keys(EDITOR_CONFIGS)\<close>: the keys in insertion order.\<close>

definition editor_keys :: "EditorType list" where
  "editor_keys = [cursor, windsurf, cline, vscode, codex, claude_code, qoder, trae, qwencoder]"

definition getDisplayNamesForEditor :: "EditorType \<Rightarrow> string list" where
  "getDisplayNamesForEditor editor =
     (let config = EDITOR_CONFIGS editor in
      [displayName config] @ (case aliasDisplayNames config of None \<Rightarrow> [] | Some al \<Rightarrow> al))"

text \<open>
  The loop of \<open>getEditorByDisplayName\<close> over \<open>Object.entries(EDITOR_CONFIGS)\<close>: the first
  entry whose display name or one of whose aliases equals the argument is returned;
  \<open>None\<close> is the source's \<open>null\<close>.
\<close>

fun editor_by_name_loop :: "EditorType list \<Rightarrow> string \<Rightarrow> EditorType option" where
  "editor_by_name_loop [] dn = None"
| "editor_by_name_loop (editorType # rest) dn =
     (let config = EDITOR_CONFIGS editorType in
      if displayName config = dn then Some editorType
      else if (case aliasDisplayNames config of None \<Rightarrow> False | Some al \<Rightarrow> dn \<in> set al)
        then Some editorType
      else editor_by_name_loop rest dn)"

definition getEditorByDisplayName :: "string \<Rightarrow> EditorType option" where
  "getEditorByDisplayName dn = editor_by_name_loop editor_keys dn"


section \<open>JavaScript string operations used by the sources\<close>

text \<open>
  The built-in string methods the sources call, over ASCII text. \<open>newline\<close> and
  \<open>carriage_return\<close> are the two ASCII line terminators of a JavaScript regular expression.
\<close>

definition newline :: char where
  "newline = CHR 0x0A"

definition carriage_return :: char where
  "carriage_return = CHR 0x0D"

definition nl :: string where
  "nl = [newline]"

definition toLowerCase :: "string \<Rightarrow> string" where
  "toLowerCase s = map (\<lambda>c.
     case map_of (zip ''ABCDEFGHIJKLMNOPQRSTUVWXYZ'' ''abcdefghijklmnopqrstuvwxyz'') c of
       Some d \<Rightarrow> d | None \<Rightarrow> c) s"

text \<open>The character class \<open>[a-z0-9]\<close>.\<close>

definition is_lower_alnum :: "char \<Rightarrow> bool" where
  "is_lower_alnum c = (c \<in> set ''abcdefghijklmnopqrstuvwxyz0123456789'')"

text \<open>The character class \<open>[a-zA-Z]\<close>.\<close>

definition is_alpha :: "char \<Rightarrow> bool" where
  "is_alpha c = (c \<in> set ''abcdefghijklmnopqrstuvwxyzABCDEFGHIJKLMNOPQRSTUVWXYZ'')"

text \<open>\<open>s.replace(/[^a-z0-9]/g, '-')\<close>: every character outside the class becomes a hyphen.\<close>

definition replace_each_non_alnum :: "string \<Rightarrow> string" where
  "replace_each_non_alnum s = map (\<lambda>c. if is_lower_alnum c then c else CHR ''-'') s"

text \<open>
  \<open>s.replace(/[^a-z0-9]+/g, '-')\<close>: every maximal run of characters outside the class
  becomes one hyphen.
\<close>

fun replace_runs_from :: "bool \<Rightarrow> string \<Rightarrow> string" where
  "replace_runs_from in_run [] = []"
| "replace_runs_from in_run (c # cs) =
     (if is_lower_alnum c then c # replace_runs_from False cs
      else if in_run then replace_runs_from True cs
      else CHR ''-'' # replace_runs_from True cs)"

definition replace_runs_non_alnum :: "string \<Rightarrow> string" where
  "replace_runs_non_alnum s = replace_runs_from False s"

definition startsWith :: "string \<Rightarrow> string \<Rightarrow> bool" where
  "startsWith s p = (take (length p) s = p)"

definition endsWith :: "string \<Rightarrow> string \<Rightarrow> bool" where
  "endsWith s p = (drop (length s - length p) s = p \<and> length p \<le> length s)"

text \<open>\<open>s.includes(sub)\<close>: \<open>sub\<close> occurs in \<open>s\<close> as a contiguous substring.\<close>

fun str_includes :: "string \<Rightarrow> string \<Rightarrow> bool" where
  "str_includes [] sub = (sub = [])"
| "str_includes (c # cs) sub = (startsWith (c # cs) sub \<or> str_includes cs sub)"

text \<open>White space as \<open>trim\<close> and the class \<open>\s\<close> see it in ASCII text.\<close>

definition is_space :: "char \<Rightarrow> bool" where
  "is_space c = (c \<in> {CHR '' '', CHR 0x09, CHR 0x0A, CHR 0x0B, CHR 0x0C, CHR 0x0D})"

definition is_line_terminator :: "char \<Rightarrow> bool" where
  "is_line_terminator c = (c = newline \<or> c = carriage_return)"

definition trim :: "string \<Rightarrow> string" where
  "trim s = rev (dropWhile is_space (rev (dropWhile is_space s)))"

text \<open>\<open>xs.join(sep)\<close> on a list of strings.\<close>

fun join_with :: "string \<Rightarrow> string list \<Rightarrow> string" where
  "join_with sep [] = []"
| "join_with sep [x] = x"
| "join_with sep (x # y # ys) = x @ sep @ join_with sep (y # ys)"

text \<open>
  \<open>filePath.split('/').pop()?.replace(/\.[^/.]+$/, '') || 'unnamed'\<close>: the last path
  component without its final extension; the empty string is falsy and gives
  \<open>'unnamed'\<close>.
\<close>

definition last_component :: "string \<Rightarrow> string" where
  "last_component p = rev (takeWhile (\<lambda>c. c \<noteq> CHR ''/'') (rev p))"

definition strip_extension :: "string \<Rightarrow> string" where
  "strip_extension s =
     (let ext = rev (takeWhile (\<lambda>c. c \<noteq> CHR ''.'') (rev s)) in
      if CHR ''.'' \<in> set s \<and> ext \<noteq> [] \<and> CHR ''/'' \<notin> set ext
      then take (length s - length ext - 1) s else s)"

definition fileName_of :: "string \<Rightarrow> string" where
  "fileName_of filePath =
     (let n = strip_extension (last_component filePath) in if n = [] then ''unnamed'' else n)"


section \<open>The regular expressions of the parser\<close>

text \<open>
  \<open>content.split(/^---- (.+?) ----$/gm)\<close>. With the \<open>m\<close> flag \<open>^\<close> and \<open>$\<close> match at line
  boundaries and \<open>.\<close> matches no line terminator, so a match is a whole line of the form
  \<open>---- name ----\<close> with a non-empty name. \<open>lines_of\<close> cuts the text into lines, each with
  the terminator that follows it (empty after the last line).
\<close>

fun lines_of :: "string \<Rightarrow> (string \<times> string) list" where
  "lines_of [] = [([], [])]"
| "lines_of (c # cs) =
     (if is_line_terminator c then ([], [c]) # lines_of cs
      else (case lines_of cs of
              [] \<Rightarrow> [([c], [])]
            | (l, t) # rest \<Rightarrow> (c # l, t) # rest))"

definition section_delimiter :: "string \<Rightarrow> string option" where
  "section_delimiter l =
     (if startsWith l ''---- '' \<and> endsWith l '' ----'' \<and> 11 \<le> length l
      then Some (take (length l - 10) (drop 5 l)) else None)"

text \<open>
  The result of \<open>split\<close>: the text before the first delimiter, then for each delimiter
  its captured name and the text up to the next delimiter. \<open>cur\<close> is the piece being
  collected; a line terminator belongs to the piece of the text around it.
\<close>

fun split_pieces :: "string \<Rightarrow> (string \<times> string) list \<Rightarrow> string list" where
  "split_pieces cur [] = [cur]"
| "split_pieces cur ((l, t) # rest) =
     (case section_delimiter l of
        Some nm \<Rightarrow> cur # nm # split_pieces t rest
      | None \<Rightarrow> split_pieces (cur @ l @ t) rest)"

definition split_sections :: "string \<Rightarrow> string list" where
  "split_sections content = split_pieces [] (lines_of content)"

text \<open>
  \<open>parsedContent.match(/^#\s+(.+)$/m)\<close>: the first capture group of the leftmost match.
  \<open>title_at\<close> tries a match at a line start. \<open>\s+\<close> is greedy and may run over line
  terminators; when the white space runs to the end of the text it gives characters
  back until \<open>(.+)\<close> can start on one that is no line terminator.
\<close>

definition title_backtrack :: "string \<Rightarrow> string option" where
  "title_backtrack w =
     (case find (\<lambda>j. \<not> is_line_terminator (w ! j)) (rev [1 ..< length w]) of
        None \<Rightarrow> None
      | Some j \<Rightarrow> Some (takeWhile (\<lambda>c. \<not> is_line_terminator c) (drop j w)))"

definition title_at :: "string \<Rightarrow> string option" where
  "title_at r =
     (case r of
        [] \<Rightarrow> None
      | c # r' \<Rightarrow>
          if c \<noteq> CHR ''#'' then None
          else let w = takeWhile is_space r'; rest = dropWhile is_space r' in
            if w = [] then None
            else if rest \<noteq> [] then Some (takeWhile (\<lambda>c. \<not> is_line_terminator c) rest)
            else title_backtrack w)"

fun title_scan :: "bool \<Rightarrow> string \<Rightarrow> string option" where
  "title_scan at_line_start [] = None"
| "title_scan at_line_start (c # cs) =
     (case (if at_line_start then title_at (c # cs) else None) of
        Some t \<Rightarrow> Some t
      | None \<Rightarrow> title_scan (is_line_terminator c) cs)"

definition titleMatch :: "string \<Rightarrow> string option" where
  "titleMatch parsedContent = title_scan True parsedContent"

text \<open>
  \<open>content.match(/\*\.[a-zA-Z]+|\*\*\/\*\.[a-zA-Z]+|src\/\*+/g)\<close>: all matches from left to
  right, each search starting where the previous match ended; \<open>None\<close> is the \<open>null\<close> that
  \<open>match\<close> returns when nothing matches.
\<close>

definition pattern_at :: "string \<Rightarrow> string option" where
  "pattern_at r =
     (let ext1 = takeWhile is_alpha (drop 2 r);
          ext2 = takeWhile is_alpha (drop 5 r);
          stars = takeWhile (\<lambda>c. c = CHR ''*'') (drop 4 r) in
      if startsWith r ''*.'' \<and> ext1 \<noteq> [] then Some (''*.'' @ ext1)
      else if startsWith r ''**/*.'' \<and> ext2 \<noteq> [] then Some (''**/*.'' @ ext2)
      else if startsWith r ''src/'' \<and> stars \<noteq> [] then Some (''src/'' @ stars)
      else None)"

fun pattern_scan :: "nat \<Rightarrow> string \<Rightarrow> string list" where
  "pattern_scan skip [] = []"
| "pattern_scan (Suc k) (c # cs) = pattern_scan k cs"
| "pattern_scan 0 (c # cs) =
     (case pattern_at (c # cs) of
        Some m \<Rightarrow> m # pattern_scan (length m - 1) cs
      | None \<Rightarrow> pattern_scan 0 cs)"

definition patternMatches :: "string \<Rightarrow> string list option" where
  "patternMatches content =
     (let ms = pattern_scan 0 content in if ms = [] then None else Some ms)"


section \<open>Data model (src/types/index.ts)\<close>

text \<open>
  \<open>Rule.description\<close> is an optional string that the sources only test for truthiness
  (\<open>rule.description || ...\<close>, \<open>!description\<close>): the empty string stands for an absent
  description as well. \<open>Rule.patterns\<close> is optional; the parser leaves it out when the
  list is empty. The editor identifier as a string is \<open>editor_id\<close>.
\<close>

datatype metaval = MStr string | MNum nat

record Rule =
  name :: string
  description :: string
  content :: string
  type :: RuleType
  patterns :: "string list option"
  metadata :: "(string \<times> metaval) list"
  source :: EditorType

record DetectionResult =
  editor :: EditorType
  rules :: "Rule list"
  location :: string
  ruleCount :: nat

record ConversionResult =
  success :: bool
  converted :: nat
  skipped :: nat
  errors :: "string list"
  outputFiles :: "string list"

fun editor_id :: "EditorType \<Rightarrow> string" where
  "editor_id cursor = ''cursor''"
| "editor_id windsurf = ''windsurf''"
| "editor_id cline = ''cline''"
| "editor_id vscode = ''vscode''"
| "editor_id codex = ''codex''"
| "editor_id claude_code = ''claude-code''"
| "editor_id qoder = ''qoder''"
| "editor_id trae = ''trae''"
| "editor_id qwencoder = ''qwencoder''"

section \<open>The environment: file system and external packages\<close>

text \<open>
  The project on disk is a map from paths to nodes. \<open>faults\<close> names the paths at which
  reading, writing or creating fails, with the message of the \<open>Error\<close> thrown there;
  \<open>writes\<close> records the paths given to \<open>writeFileSync\<close>, in order. A thrown \<open>Error\<close> is
  represented by its message: \<open>Inl m\<close> is \<open>throw new Error(m)\<close>.
\<close>

datatype node = File string | Dir | Other

record fsys =
  nodes :: "string \<rightharpoonup> node"
  faults :: "string \<rightharpoonup> string"
  writes :: "string list"

definition existsSync :: "fsys \<Rightarrow> string \<Rightarrow> bool" where
  "existsSync fs p = (nodes fs p \<noteq> None)"

definition statSync :: "fsys \<Rightarrow> string \<Rightarrow> string + node" where
  "statSync fs p =
     (case nodes fs p of
        None \<Rightarrow> Inl (''ENOENT: no such file or directory, stat '' @ p)
      | Some n \<Rightarrow> Inr n)"

definition readFileSync :: "fsys \<Rightarrow> string \<Rightarrow> string + string" where
  "readFileSync fs p =
     (case faults fs p of
        Some m \<Rightarrow> Inl m
      | None \<Rightarrow>
         (case nodes fs p of
            Some (File c) \<Rightarrow> Inr c
          | Some Dir \<Rightarrow> Inl ''EISDIR: illegal operation on a directory, read''
          | Some Other \<Rightarrow> Inl (''EINVAL: invalid argument, read '' @ p)
          | None \<Rightarrow> Inl (''ENOENT: no such file or directory, open '' @ p)))"

definition writeFileSync :: "fsys \<Rightarrow> string \<Rightarrow> string \<Rightarrow> (string + unit) \<times> fsys" where
  "writeFileSync fs p c =
     (case faults fs p of
        Some m \<Rightarrow> (Inl m, fs)
      | None \<Rightarrow>
         (case nodes fs p of
            Some Dir \<Rightarrow> (Inl (''EISDIR: illegal operation on a directory, open '' @ p), fs)
          | _ \<Rightarrow> (Inr (), fs\<lparr>nodes := (nodes fs)(p \<mapsto> File c), writes := writes fs @ [p]\<rparr>)))"

definition mkdirSync :: "fsys \<Rightarrow> string \<Rightarrow> (string + unit) \<times> fsys" where
  "mkdirSync fs p =
     (case faults fs p of
        Some m \<Rightarrow> (Inl m, fs)
      | None \<Rightarrow> (Inr (), fs\<lparr>nodes := (nodes fs)(p \<mapsto> Dir)\<rparr>))"

text \<open>\<open>`${error}`\<close> for a caught \<open>Error\<close> with message \<open>m\<close>.\<close>

definition error_string :: "string \<Rightarrow> string" where
  "error_string m = ''Error: '' @ m"

text \<open>
  The frontmatter object that gray-matter returns, with the fields the parser reads, at
  the types the interfaces \<open>CursorRule\<close>, \<open>WindsurfRule\<close> and \<open>TraeRule\<close> declare for them: a
  glob field is a string or a list of strings. \<open>None\<close> is an absent key.
\<close>

datatype globs = GlobStr string | GlobList "string list"

record frontmatter =
  fm_description :: "string option"
  fm_globs :: "globs option"
  fm_alwaysApply :: "bool option"
  fm_filesToApplyRule :: "string option"
  fm_trigger :: "string option"
  fm_glob :: "globs option"

datatype matter_result = Matter (m_content: string) (m_data: frontmatter)

text \<open>The values of the frontmatter objects that the converters hand to \<open>matter.stringify\<close>.\<close>

datatype fmval = FStr string | FBool bool | FList "string list"

text \<open>
  The external packages: \<open>path.resolve\<close> and \<open>path.join\<close>, fast-glob (its answer for a
  list of patterns on the project at hand), gray-matter's parser (\<open>Inl\<close> when it throws)
  and \<open>matter.stringify\<close>.
\<close>

record libs =
  resolve :: "string \<Rightarrow> string \<Rightarrow> string"
  join :: "string \<Rightarrow> string \<Rightarrow> string"
  glob :: "string list \<Rightarrow> string list"
  matter :: "string \<Rightarrow> string + matter_result"
  stringify :: "string \<Rightarrow> (string \<times> fmval) list \<Rightarrow> string"

text \<open>JavaScript truthiness of an optional string and of an optional glob field.\<close>

definition truthy_str :: "string option \<Rightarrow> bool" where
  "truthy_str v = (case v of None \<Rightarrow> False | Some s \<Rightarrow> s \<noteq> [])"

definition truthy_globs :: "globs option \<Rightarrow> bool" where
  "truthy_globs v =
     (case v of None \<Rightarrow> False | Some (GlobStr s) \<Rightarrow> s \<noteq> [] | Some (GlobList xs) \<Rightarrow> True)"

text \<open>\<open>Array.isArray(g) ? g : [g]\<close>, which is also \<open>typeof g === 'string' ? [g] : g\<close>.\<close>

fun globs_list :: "globs \<Rightarrow> string list" where
  "globs_list (GlobStr s) = [s]"
| "globs_list (GlobList xs) = xs"


section \<open>Dialect parser and detection (src/parsers/index.ts)\<close>

text \<open>
  The body of the \<open>try\<close> block of \<open>parseRuleContent\<close>, after \<open>matter(content)\<close> has returned
  \<open>parsed\<close>. The arguments are the values of \<open>description\<close>, \<open>patterns\<close> and \<open>ruleType\<close> before
  the block; the result adds \<open>parsedContent\<close>. The assignments run in the order of the
  source: \<open>globs\<close>, then \<open>alwaysApply\<close>, then the editor-specific fields.
\<close>

definition parse_frontmatter ::
  "EditorType \<Rightarrow> matter_result \<Rightarrow> string \<times> string list \<times> RuleType
     \<Rightarrow> string \<times> string \<times> string list \<times> RuleType" where
  "parse_frontmatter ed parsed st =
     (case st of (description0, patterns0, ruleType0) \<Rightarrow>
      let fm = m_data parsed;
          description1 = (case fm_description fm of
                            Some d \<Rightarrow> if d \<noteq> [] then d else description0
                          | None \<Rightarrow> description0);
          patterns1 = (case fm_globs fm of
                         Some g \<Rightarrow> if truthy_globs (Some g) then globs_list g else patterns0
                       | None \<Rightarrow> patterns0);
          ruleType1 = (if truthy_globs (fm_globs fm) then auto_attached else ruleType0);
          ruleType2 = (if fm_alwaysApply fm = Some True then always else ruleType1);
          patterns2 =
            (case ed of
               windsurf \<Rightarrow> (case fm_filesToApplyRule fm of
                              Some f \<Rightarrow> if f \<noteq> [] then [f] else patterns1
                            | None \<Rightarrow> patterns1)
             | qoder \<Rightarrow> (case fm_glob fm of
                           Some g \<Rightarrow> if truthy_globs (Some g) then globs_list g else patterns1
                         | None \<Rightarrow> patterns1)
             | _ \<Rightarrow> patterns1);
          ruleType3 =
            (case ed of
               windsurf \<Rightarrow> if truthy_str (fm_filesToApplyRule fm) then glob_pattern else ruleType2
             | qoder \<Rightarrow> (case fm_trigger fm of
                           Some tr \<Rightarrow>
                             if tr = ''manual'' then manual
                             else if tr = ''model_decision'' then model_decision
                             else if tr = ''always_on'' then always
                             else if tr = ''glob'' then glob_pattern
                             else ruleType2
                         | None \<Rightarrow> ruleType2)
             | _ \<Rightarrow> ruleType2)
      in (m_content parsed, description1, patterns2, ruleType3))"

text \<open>
  The second \<open>switch (editor)\<close> of \<open>parseRuleContent\<close>, on \<open>description\<close>, \<open>patterns\<close> and
  \<open>ruleType\<close>. \<open>txt\<close> is the raw \<open>content\<close>, \<open>body\<close> is \<open>parsedContent\<close>.
\<close>

definition editor_specific ::
  "EditorType \<Rightarrow> string \<Rightarrow> string \<Rightarrow> string \<Rightarrow> string \<times> string list \<times> RuleType
     \<Rightarrow> string \<times> string list \<times> RuleType" where
  "editor_specific ed txt body filePath st =
     (case st of (description0, patterns0, ruleType0) \<Rightarrow>
      case ed of
        cline \<Rightarrow> (case titleMatch body of
                    Some t \<Rightarrow> if t \<noteq> [] \<and> description0 = [] then (t, patterns0, ruleType0)
                              else (description0, patterns0, ruleType0)
                  | None \<Rightarrow> (description0, patterns0, ruleType0))
      | codex \<Rightarrow> if str_includes filePath ''AGENTS.md''
                  then (''Project Agent Rules'', patterns0, ruleType0)
                  else (description0, patterns0, ruleType0)
      | claude_code \<Rightarrow> if str_includes filePath ''CLAUDE.md''
                  then (''Claude Code Instructions'', patterns0, ruleType0)
                  else (description0, patterns0, ruleType0)
      | qoder \<Rightarrow> if str_includes txt ''*.'' \<or> str_includes txt ''src/''
                  then (description0,
                        (case patternMatches txt of Some ms \<Rightarrow> ms | None \<Rightarrow> patterns0),
                        specific_files)
                  else (description0, patterns0, ruleType0)
      | _ \<Rightarrow> (description0, patterns0, ruleType0))"

definition parseRuleContent :: "libs \<Rightarrow> EditorType \<Rightarrow> string \<Rightarrow> string \<Rightarrow> string \<Rightarrow> Rule" where
  "parseRuleContent L ed nm txt filePath =
     (let config = EDITOR_CONFIGS ed;
          st1 = (if hasYamlFrontmatter config
                 then (case matter L txt of
                         Inr parsed \<Rightarrow> parse_frontmatter ed parsed ([], [], always)
                       | Inl warning \<Rightarrow> (txt, [], [], always))
                 else (txt, [], [], always))
      in case st1 of (parsedContent, st2) \<Rightarrow>
         (case editor_specific ed txt parsedContent filePath st2 of
            (description3, patterns3, ruleType3) \<Rightarrow>
              \<lparr>name = nm, description = description3, content = trim parsedContent,
               type = ruleType3,
               patterns = (if patterns3 \<noteq> [] then Some patterns3 else None),
               metadata = [(''filePath'', MStr filePath), (''size'', MNum (length txt))],
               source = ed\<rparr>))"

text \<open>\<open>parseRuleFile\<close>: a file that cannot be read gives \<open>null\<close>, here \<open>None\<close>.\<close>

definition parseRuleFile :: "libs \<Rightarrow> fsys \<Rightarrow> EditorType \<Rightarrow> string \<Rightarrow> Rule option" where
  "parseRuleFile L fs ed filePath =
     (case readFileSync fs filePath of
        Inl m \<Rightarrow> None
      | Inr txt \<Rightarrow> Some (parseRuleContent L ed (fileName_of filePath) txt filePath))"

text \<open>
  The loop \<open>for (let i = 1; i < sections.length; i += 2)\<close> of
  \<open>parseSingleFileWithSections\<close>, on the pieces after the first one.
\<close>

fun section_rules :: "EditorType \<Rightarrow> string \<Rightarrow> string list \<Rightarrow> Rule list" where
  "section_rules ed filePath (n # c # rest) =
     (let sectionName = trim n; sectionContent = trim c;
          sourceDesc = (if ed = codex then ''Codex CLI'' else ''QwenCoder'') in
      (if sectionName \<noteq> [] \<and> sectionContent \<noteq> []
       then [\<lparr>name = sectionName,
              description = sectionName @ '' rules from '' @ sourceDesc,
              content = sectionContent, type = always, patterns = None,
              metadata = [(''filePath'', MStr filePath), (''section'', MStr sectionName)],
              source = ed\<rparr>]
       else []) @ section_rules ed filePath rest)"
| "section_rules ed filePath [n] = []"
| "section_rules ed filePath [] = []"

text \<open>\<open>readFileSync\<close> is outside any \<open>try\<close> here: a read error is thrown to the caller.\<close>

definition parseSingleFileWithSections ::
  "libs \<Rightarrow> fsys \<Rightarrow> EditorType \<Rightarrow> string \<Rightarrow> string + Rule list" where
  "parseSingleFileWithSections L fs ed filePath =
     (case readFileSync fs filePath of
        Inl m \<Rightarrow> Inl m
      | Inr txt \<Rightarrow>
          if ed = codex \<or> ed = qwencoder
          then Inr (section_rules ed filePath (tl (split_sections txt)))
          else Inr [parseRuleContent L ed (fileName_of filePath) txt filePath])"

definition parseRulesFromLocation ::
  "libs \<Rightarrow> fsys \<Rightarrow> EditorType \<Rightarrow> string \<Rightarrow> string + Rule list" where
  "parseRulesFromLocation L fs ed loc =
     (case statSync fs loc of
        Inl m \<Rightarrow> Inl m
      | Inr (File c) \<Rightarrow>
          if ed = codex \<or> ed = claude_code \<or> ed = qwencoder
          then parseSingleFileWithSections L fs ed loc
          else (case parseRuleFile L fs ed loc of Some r \<Rightarrow> Inr [r] | None \<Rightarrow> Inr [])
      | Inr Dir \<Rightarrow>
          (let globPatterns = map (\<lambda>ext. loc @ ''/**/*'' @ ext) (fileFormats (EDITOR_CONFIGS ed));
               files = glob L globPatterns
           in Inr (List.map_filter (parseRuleFile L fs ed) files))
      | Inr Other \<Rightarrow> Inr [])"

text \<open>
  The two loops of \<open>detectRulesForEditor\<close> over \<open>config.locations\<close> and
  \<open>config.legacyLocations\<close> have the same body; the state is \<open>rules\<close> and
  \<open>detectedLocation\<close>.
\<close>

fun detect_locations ::
  "libs \<Rightarrow> fsys \<Rightarrow> EditorType \<Rightarrow> string \<Rightarrow> string list \<Rightarrow> Rule list \<times> string
     \<Rightarrow> string + (Rule list \<times> string)" where
  "detect_locations L fs ed projectPath [] st = Inr st"
| "detect_locations L fs ed projectPath (loc # rest) st =
     (let fullPath = resolve L projectPath loc in
      if existsSync fs fullPath
      then (case parseRulesFromLocation L fs ed fullPath of
              Inl m \<Rightarrow> Inl m
            | Inr foundRules \<Rightarrow>
                detect_locations L fs ed projectPath rest
                  (fst st @ foundRules,
                   if foundRules \<noteq> [] \<and> snd st = [] then fullPath else snd st))
      else detect_locations L fs ed projectPath rest st)"

definition detectRulesForEditor ::
  "libs \<Rightarrow> fsys \<Rightarrow> EditorType \<Rightarrow> string \<Rightarrow> string + DetectionResult" where
  "detectRulesForEditor L fs ed projectPath =
     (let config = EDITOR_CONFIGS ed in
      case detect_locations L fs ed projectPath (locations config) ([], []) of
        Inl m \<Rightarrow> Inl m
      | Inr st1 \<Rightarrow>
         (case (case legacyLocations config of
                  None \<Rightarrow> Inr st1
                | Some legacy \<Rightarrow> detect_locations L fs ed projectPath legacy st1) of
            Inl m \<Rightarrow> Inl m
          | Inr st2 \<Rightarrow>
              Inr \<lparr>editor = ed, rules = fst st2, location = snd st2,
                   ruleCount = length (fst st2)\<rparr>))"

text \<open>
  \<open>Array.prototype.sort\<close> with a comparator: a stable sort, here by insertion; \<open>x\<close> goes
  before \<open>y\<close> when \<open>cmp x y \<le> 0\<close>.
\<close>

fun insert_by :: "('a \<Rightarrow> 'a \<Rightarrow> int) \<Rightarrow> 'a \<Rightarrow> 'a list \<Rightarrow> 'a list" where
  "insert_by cmp x [] = [x]"
| "insert_by cmp x (y # ys) = (if cmp x y \<le> 0 then x # y # ys else y # insert_by cmp x ys)"

definition sort_by :: "('a \<Rightarrow> 'a \<Rightarrow> int) \<Rightarrow> 'a list \<Rightarrow> 'a list" where
  "sort_by cmp xs = foldr (insert_by cmp) xs []"

text \<open>The comparator \<open>(a, b) => b.ruleCount - a.ruleCount\<close>.\<close>

definition by_ruleCount_desc :: "DetectionResult \<Rightarrow> DetectionResult \<Rightarrow> int" where
  "by_ruleCount_desc a b = int (ruleCount b) - int (ruleCount a)"

fun detect_editors ::
  "libs \<Rightarrow> fsys \<Rightarrow> string \<Rightarrow> EditorType list \<Rightarrow> DetectionResult list
     \<Rightarrow> string + DetectionResult list" where
  "detect_editors L fs projectPath [] results = Inr results"
| "detect_editors L fs projectPath (editorType # rest) results =
     (case detectRulesForEditor L fs editorType projectPath of
        Inl m \<Rightarrow> Inl m
      | Inr detected \<Rightarrow>
          detect_editors L fs projectPath rest
            (if ruleCount detected > 0 then results @ [detected] else results))"

definition detectAllRules :: "libs \<Rightarrow> fsys \<Rightarrow> string \<Rightarrow> string + DetectionResult list" where
  "detectAllRules L fs projectPath =
     (case detect_editors L fs projectPath editor_keys [] of
        Inl m \<Rightarrow> Inl m
      | Inr results \<Rightarrow> Inr (sort_by by_ruleCount_desc results))"


section \<open>Dialect serializers and the orchestrator (src/converters/index.ts)\<close>

text \<open>\<open>rule.description || alt\<close>: the description unless it is empty.\<close>

definition description_or :: "Rule \<Rightarrow> string \<Rightarrow> string" where
  "description_or rule alt = (if description rule \<noteq> [] then description rule else alt)"

definition converted_from :: "Rule \<Rightarrow> string" where
  "converted_from rule = ''Converted from '' @ editor_id (source rule)"

definition is_pattern_type :: "RuleType \<Rightarrow> bool" where
  "is_pattern_type t = (t = auto_attached \<or> t = glob_pattern \<or> t = specific_files)"

definition convertToCursor :: "libs \<Rightarrow> Rule \<Rightarrow> string" where
  "convertToCursor L rule =
     stringify L (content rule)
       ([(''description'', FStr (description_or rule (converted_from rule)))] @
        (if type rule = always then [(''alwaysApply'', FBool True)]
         else if is_pattern_type (type rule)
           then (case patterns rule of Some ps \<Rightarrow> [(''globs'', FList ps)] | None \<Rightarrow> [])
         else []))"

definition convertToWindsurf :: "libs \<Rightarrow> Rule \<Rightarrow> string" where
  "convertToWindsurf L rule =
     stringify L (content rule)
       ([(''description'', FStr (description_or rule (converted_from rule)))] @
        (if type rule = always then [(''alwaysApply'', FBool True)]
         else if is_pattern_type (type rule)
           then (case patterns rule of
                   Some ps \<Rightarrow> [(''globs'', FStr (join_with '','' ps))] | None \<Rightarrow> [])
         else []))"

definition convertToCline :: "Rule \<Rightarrow> string" where
  "convertToCline rule =
     ''# '' @ description_or rule (name rule) @ nl @ nl @
     ''*'' @ converted_from rule @ '' rules*'' @ nl @ nl @ content rule"

definition convertToVSCode :: "libs \<Rightarrow> Rule \<Rightarrow> string" where
  "convertToVSCode L rule =
     stringify L (content rule)
       ([(''description'', FStr (description_or rule (converted_from rule)))] @
        (case patterns rule of
           Some ps \<Rightarrow> [(''applyTo'', FStr (join_with '','' ps))] | None \<Rightarrow> []))"

definition convertToCodex :: "Rule \<Rightarrow> string" where
  "convertToCodex rule =
     ''# '' @ description_or rule (name rule) @ nl @ nl @
     ''*'' @ converted_from rule @ '' rules*'' @ nl @ nl @ content rule"

definition convertToClaudeCode :: "Rule \<Rightarrow> string" where
  "convertToClaudeCode rule = ''# '' @ description_or rule (name rule) @ nl @ nl @ content rule"

fun mapRuleTypeToQoderTrigger :: "RuleType \<Rightarrow> string" where
  "mapRuleTypeToQoderTrigger manual = ''manual''"
| "mapRuleTypeToQoderTrigger model_decision = ''model_decision''"
| "mapRuleTypeToQoderTrigger agent_requested = ''model_decision''"
| "mapRuleTypeToQoderTrigger always = ''always_on''"
| "mapRuleTypeToQoderTrigger auto_attached = ''glob''"
| "mapRuleTypeToQoderTrigger glob_pattern = ''glob''"
| "mapRuleTypeToQoderTrigger specific_files = ''glob''"

definition convertToQoder :: "libs \<Rightarrow> Rule \<Rightarrow> string" where
  "convertToQoder L rule =
     stringify L (content rule)
       ([(''trigger'', FStr (mapRuleTypeToQoderTrigger (type rule))),
         (''description'', FStr (description_or rule (converted_from rule)))] @
        (if type rule = always then [(''alwaysApply'', FBool True)] else []) @
        (case patterns rule of
           Some ps \<Rightarrow>
             if is_pattern_type (type rule) \<and> ps \<noteq> []
             then [(''glob'', FStr (case ps of [p] \<Rightarrow> p | _ \<Rightarrow> join_with '','' ps))]
             else []
         | None \<Rightarrow> []))"

definition convertToTrae :: "libs \<Rightarrow> Rule \<Rightarrow> string" where
  "convertToTrae L rule =
     stringify L (content rule)
       ([(''description'', FStr (description_or rule (converted_from rule)))] @
        (if type rule = always then [(''alwaysApply'', FBool True)] else []) @
        (case patterns rule of
           Some ps \<Rightarrow> [(''globs'', FStr (join_with '','' ps))] | None \<Rightarrow> []))"

definition convertToQwenCoder :: "Rule \<Rightarrow> string" where
  "convertToQwenCoder rule =
     ''# '' @ description_or rule (name rule) @ nl @ nl @
     ''*'' @ converted_from rule @ '' rules*'' @ nl @ nl @ content rule"

fun convertRuleContent :: "libs \<Rightarrow> Rule \<Rightarrow> EditorType \<Rightarrow> string" where
  "convertRuleContent L rule cursor = convertToCursor L rule"
| "convertRuleContent L rule windsurf = convertToWindsurf L rule"
| "convertRuleContent L rule cline = convertToCline rule"
| "convertRuleContent L rule vscode = convertToVSCode L rule"
| "convertRuleContent L rule codex = convertToCodex rule"
| "convertRuleContent L rule claude_code = convertToClaudeCode rule"
| "convertRuleContent L rule qoder = convertToQoder L rule"
| "convertRuleContent L rule trae = convertToTrae L rule"
| "convertRuleContent L rule qwencoder = convertToQwenCoder rule"

text \<open>
  \<open>generateFileName\<close>: the regular expression is \<open>/[^a-z0-9]/g\<close>, without \<open>+\<close>. A missing
  first file format would print as \<open>undefined\<close>.
\<close>

definition generateFileName :: "Rule \<Rightarrow> EditorType \<Rightarrow> string" where
  "generateFileName rule targetEditor =
     (let config = EDITOR_CONFIGS targetEditor;
          baseName = replace_each_non_alnum (toLowerCase (name rule));
          extension = (case fileFormats config of [] \<Rightarrow> ''undefined'' | e # es \<Rightarrow> e)
      in baseName @ extension)"

text \<open>The editors that \<open>convertToEditor\<close> and \<open>parseRulesFromLocation\<close> treat as one file.\<close>

definition is_single_file :: "EditorType \<Rightarrow> bool" where
  "is_single_file ed = (ed = codex \<or> ed = claude_code \<or> ed = qwencoder)"

definition single_file_header :: "EditorType \<Rightarrow> string" where
  "single_file_header targetEditor =
     (case targetEditor of
        codex \<Rightarrow> ''# Project Agent Rules'' @ nl @ nl @
                 ''*Converted rules from multiple sources*'' @ nl @ nl
      | claude_code \<Rightarrow> ''# CLAUDE.md'' @ nl @ nl @
                 ''This file provides guidance to Claude Code when working with code in this repository.'' @ nl @ nl
      | qwencoder \<Rightarrow> ''# Project Context Rules'' @ nl @ nl @
                 ''*AI coding assistant guidance*'' @ nl @ nl
      | _ \<Rightarrow> [])"

text \<open>The loop of \<open>convertToSingleFile\<close>: what each rule appends to \<open>content\<close>.\<close>

fun single_file_sections :: "EditorType \<Rightarrow> Rule list \<Rightarrow> string" where
  "single_file_sections targetEditor [] = []"
| "single_file_sections targetEditor (rule # rest) =
     (if targetEditor = codex \<or> targetEditor = qwencoder
      then ''---- '' @ name rule @ '' ----'' @ nl @ nl
      else ''## '' @ description_or rule (name rule) @ nl @ nl) @
     content rule @
     (if rest \<noteq> [] then nl @ nl else []) @
     single_file_sections targetEditor rest"

definition single_file_path :: "libs \<Rightarrow> EditorType \<Rightarrow> string \<Rightarrow> string" where
  "single_file_path L targetEditor basePath =
     join L basePath
       (case locations (EDITOR_CONFIGS targetEditor) of
          [] \<Rightarrow> ''rules.md''
        | fileName # others \<Rightarrow> if fileName \<noteq> [] then fileName else ''rules.md'')"

definition convertToSingleFile ::
  "libs \<Rightarrow> Rule list \<Rightarrow> EditorType \<Rightarrow> string \<Rightarrow> fsys \<Rightarrow> (string + string list) \<times> fsys" where
  "convertToSingleFile L rs targetEditor basePath fs =
     (let filePath = single_file_path L targetEditor basePath;
          txt = single_file_header targetEditor @ single_file_sections targetEditor rs
      in case writeFileSync fs filePath txt of
           (Inl m, fs') \<Rightarrow> (Inl m, fs')
         | (Inr u, fs') \<Rightarrow> (Inr [filePath], fs'))"

text \<open>
  The loop of \<open>convertToEditor\<close> over the rules: a failing write is thrown again as
  \<open>Failed to convert rule <name>: <error>\<close>, and the files written before it stay.
\<close>

fun write_rules ::
  "libs \<Rightarrow> EditorType \<Rightarrow> string \<Rightarrow> Rule list \<Rightarrow> string list \<Rightarrow> fsys
     \<Rightarrow> (string + string list) \<times> fsys" where
  "write_rules L targetEditor outputDir [] files fs = (Inr files, fs)"
| "write_rules L targetEditor outputDir (rule # rest) files fs =
     (let convertedContent = convertRuleContent L rule targetEditor;
          fileName = generateFileName rule targetEditor;
          filePath = join L outputDir fileName
      in case writeFileSync fs filePath convertedContent of
           (Inl m, fs') \<Rightarrow>
             (Inl (''Failed to convert rule '' @ name rule @ '': '' @ error_string m), fs')
         | (Inr u, fs') \<Rightarrow> write_rules L targetEditor outputDir rest (files @ [filePath]) fs')"

definition convertToEditor ::
  "libs \<Rightarrow> Rule list \<Rightarrow> EditorType \<Rightarrow> string \<Rightarrow> fsys \<Rightarrow> (string + string list) \<times> fsys" where
  "convertToEditor L rs targetEditor basePath fs =
     (if is_single_file targetEditor then convertToSingleFile L rs targetEditor basePath fs
      else
        let config = EDITOR_CONFIGS targetEditor;
            outputDir = join L basePath
              (case locations config of [] \<Rightarrow> ''.'' | l # others \<Rightarrow> if l \<noteq> [] then l else ''.'')
        in case (if \<not> existsSync fs outputDir then mkdirSync fs outputDir else (Inr (), fs)) of
             (Inl m, fs') \<Rightarrow> (Inl m, fs')
           | (Inr u, fs') \<Rightarrow> write_rules L targetEditor outputDir rs [] fs')"

text \<open>The loop of \<open>convertRules\<close> over the target names, on the result and the file system.\<close>

fun convert_targets ::
  "libs \<Rightarrow> Rule list \<Rightarrow> string \<Rightarrow> string list \<Rightarrow> ConversionResult \<times> fsys
     \<Rightarrow> ConversionResult \<times> fsys" where
  "convert_targets L sourceRules outputPath [] st = st"
| "convert_targets L sourceRules outputPath (editorName # rest) st =
     (case st of (result, fs) \<Rightarrow>
      case getEditorByDisplayName editorName of
        None \<Rightarrow>
          convert_targets L sourceRules outputPath rest
            (result\<lparr>errors := errors result @ [''Unknown editor: '' @ editorName]\<rparr>, fs)
      | Some editorType \<Rightarrow>
         (case convertToEditor L sourceRules editorType outputPath fs of
            (Inr files, fs') \<Rightarrow>
              convert_targets L sourceRules outputPath rest
                (result\<lparr>outputFiles := outputFiles result @ files,
                        converted := converted result + length files\<rparr>, fs')
          | (Inl m, fs') \<Rightarrow>
              convert_targets L sourceRules outputPath rest
                (result\<lparr>errors := errors result @
                          [''Failed to convert to '' @ editorName @ '': '' @ error_string m],
                        success := False\<rparr>, fs')))"

definition initial_result :: ConversionResult where
  "initial_result = \<lparr>success = True, converted = 0, skipped = 0, errors = [], outputFiles = []\<rparr>"

definition convertRules ::
  "libs \<Rightarrow> Rule list \<Rightarrow> string list \<Rightarrow> string \<Rightarrow> fsys \<Rightarrow> ConversionResult \<times> fsys" where
  "convertRules L sourceRules targetEditors outputPath fs =
     convert_targets L sourceRules outputPath targetEditors (initial_result, fs)"


section \<open>The universal rule converter (src/converters/universal.ts)\<close>

text \<open>
  The \<open>add\<close> command's converter, as far as the claims refer to it: the file name
  expression shared by its per-file functions, and \<open>convertToClaudeCode\<close>. The fields
  \<open>formatting\<close> and \<open>metadata\<close> of \<open>UniversalRule\<close> are read by neither and are left out;
  the field names carry the prefix \<open>u_\<close> to keep them apart from those of \<open>Rule\<close>.
  \<open>fs.readFile\<close> and \<open>fs.writeFile\<close> act on the file system as their synchronous
  counterparts do.
\<close>

datatype UniversalRuleType = u_always | u_pattern | u_manual | u_ai_decision

record UniversalRule =
  u_id :: string
  u_name :: string
  u_type :: UniversalRuleType
  u_content :: string
  u_patterns :: "string list option"
  u_context :: "string option"
  u_description :: "string option"
  u_targetEditors :: "EditorType list"

text \<open>
  \<open>`${rule.name.toLowerCase().replace(/[^a-z0-9]+/g, '-')}.mdc`\<close> in the universal
  \<open>convertToCursor\<close>, and the same with \<open>.md\<close> in its siblings: here the regular
  expression has the \<open>+\<close>.
\<close>

definition universal_fileName :: "UniversalRule \<Rightarrow> string \<Rightarrow> string" where
  "universal_fileName rule extension =
     replace_runs_non_alnum (toLowerCase (u_name rule)) @ extension"

text \<open>
  The local variable \<open>content\<close> of the universal \<open>convertToClaudeCode\<close> after its three
  \<open>if\<close> statements: the rule content with the pattern or context note and a heading.
\<close>

definition universal_claude_content :: "UniversalRule \<Rightarrow> string" where
  "universal_claude_content rule =
     (let content1 =
            (case u_patterns rule of
               Some ps \<Rightarrow>
                 if u_type rule = u_pattern
                 then ''When working with files matching: '' @ join_with '', '' ps @ nl @ nl @
                      u_content rule
                 else u_content rule
             | None \<Rightarrow> u_content rule);
          content2 =
            (if u_type rule = u_ai_decision \<and> truthy_str (u_context rule)
             then ''Context: '' @ (case u_context rule of Some c \<Rightarrow> c | None \<Rightarrow> []) @ nl @ nl @
                  content1
             else content1)
      in if \<not> startsWith content2 ''#'' then ''# '' @ u_name rule @ nl @ nl @ content2
         else content2)"

text \<open>
  \<open>convertToClaudeCode\<close> computes \<open>content\<close> and then appends \<open>rule.content\<close> to the file,
  as the source does.
\<close>

definition universal_convertToClaudeCode ::
  "UniversalRule \<Rightarrow> fsys \<Rightarrow> (string + string list) \<times> fsys" where
  "universal_convertToClaudeCode rule fs =
     (let filepath = ''CLAUDE.md'';
          content3 = universal_claude_content rule;
          existingContent =
            (case readFileSync fs filepath of
               Inr txt \<Rightarrow> txt
             | Inl m \<Rightarrow> ''# AI Assistant Guidelines'' @ nl @ nl);
          existingContent' =
            existingContent @ nl @ ''## '' @ u_name rule @ nl @ nl @ u_content rule @ nl
      in case writeFileSync fs filepath existingContent' of
           (Inl m, fs') \<Rightarrow> (Inl m, fs')
         | (Inr u, fs') \<Rightarrow> (Inr [filepath], fs'))"

section \<open>A project for the concrete instances\<close>

text \<open>
  A project \<open>/proj\<close> with one Cursor rule file (the scenario of the specification:
  frontmatter \<open>alwaysApply: true\<close>, body \<open># TS\<close> and \<open>- rule\<close>) and an \<open>AGENTS.md\<close> of two
  sections. \<open>example_matter\<close> lists what gray-matter returns on the texts used below;
  a text without frontmatter comes back whole, with an empty object.
\<close>

definition no_frontmatter :: frontmatter where
  "no_frontmatter = \<lparr>fm_description = None, fm_globs = None, fm_alwaysApply = None,
     fm_filesToApplyRule = None, fm_trigger = None, fm_glob = None\<rparr>"

definition typescript_mdc :: string where
  "typescript_mdc = ''---'' @ nl @ ''alwaysApply: true'' @ nl @ ''---'' @ nl @
     ''# TS'' @ nl @ ''- rule''"

definition dq :: string where
  "dq = [CHR 0x22]"

definition globs_string_mdc :: string where
  "globs_string_mdc = ''---'' @ nl @ ''globs: '' @ dq @ ''*.ts, *.tsx'' @ dq @ nl @ ''---'' @ nl @
     ''Use strict types.''"

definition globs_list_mdc :: string where
  "globs_list_mdc = ''---'' @ nl @ ''globs:'' @ nl @ ''  - '' @ dq @ ''*.ts'' @ dq @ nl @
     ''  - '' @ dq @ ''*.tsx'' @ dq @ nl @ ''---'' @ nl @ ''Use strict types.''"

definition globs_always_mdc :: string where
  "globs_always_mdc = ''---'' @ nl @ ''globs:'' @ nl @ ''  - src/**/*.ts'' @ nl @
     ''alwaysApply: true'' @ nl @ ''---'' @ nl @ ''Use strict types.''"

definition agents_md :: string where
  "agents_md = ''# Project Agent Rules'' @ nl @ nl @
     ''---- style ----'' @ nl @ nl @ ''Use tabs'' @ nl @ nl @
     ''---- tests ----'' @ nl @ nl @ ''Write tests'' @ nl"

definition windsurf_files_md :: string where
  "windsurf_files_md = ''---'' @ nl @ ''filesToApplyRule: src/**/*'' @ nl @
     ''alwaysApply: true'' @ nl @ ''---'' @ nl @ ''Use strict types.''"

definition qoder_glob_trigger_md :: string where
  "qoder_glob_trigger_md = ''---'' @ nl @ ''trigger: glob'' @ nl @
     ''glob: '' @ dq @ ''**/*.ts,**/*.tsx'' @ dq @ nl @ ''---'' @ nl @ ''Use strict types.''"

definition qoder_glob_only_md :: string where
  "qoder_glob_only_md = ''---'' @ nl @ ''glob: lib/**'' @ nl @ ''---'' @ nl @
     ''Use strict types.''"

definition example_matter :: "string \<Rightarrow> string + matter_result" where
  "example_matter txt =
     (if txt = typescript_mdc
        then Inr (Matter (''# TS'' @ nl @ ''- rule'') (no_frontmatter\<lparr>fm_alwaysApply := Some True\<rparr>))
      else if txt = globs_string_mdc
        then Inr (Matter ''Use strict types.''
                    (no_frontmatter\<lparr>fm_globs := Some (GlobStr ''*.ts, *.tsx'')\<rparr>))
      else if txt = globs_list_mdc
        then Inr (Matter ''Use strict types.''
                    (no_frontmatter\<lparr>fm_globs := Some (GlobList [''*.ts'', ''*.tsx''])\<rparr>))
      else if txt = globs_always_mdc
        then Inr (Matter ''Use strict types.''
                    (no_frontmatter\<lparr>fm_globs := Some (GlobList [''src/**/*.ts'']),
                                    fm_alwaysApply := Some True\<rparr>))
      else if txt = windsurf_files_md
        then Inr (Matter ''Use strict types.''
                    (no_frontmatter\<lparr>fm_alwaysApply := Some True,
                                    fm_filesToApplyRule := Some ''src/**/*''\<rparr>))
      else if txt = qoder_glob_trigger_md
        then Inr (Matter ''Use strict types.''
                    (no_frontmatter\<lparr>fm_trigger := Some ''glob'',
                                    fm_glob := Some (GlobStr ''**/*.ts,**/*.tsx'')\<rparr>))
      else if txt = qoder_glob_only_md
        then Inr (Matter ''Use strict types.''
                    (no_frontmatter\<lparr>fm_glob := Some (GlobStr ''lib/**'')\<rparr>))
      else Inr (Matter txt no_frontmatter))"

fun example_yaml_line :: "string \<times> fmval \<Rightarrow> string" where
  "example_yaml_line (k, FStr v) = k @ '': '' @ v @ nl"
| "example_yaml_line (k, FBool b) = k @ '': '' @ (if b then ''true'' else ''false'') @ nl"
| "example_yaml_line (k, FList vs) = k @ '':'' @ nl @ concat (map (\<lambda>v. ''  - '' @ v @ nl) vs)"

definition example_stringify :: "string \<Rightarrow> (string \<times> fmval) list \<Rightarrow> string" where
  "example_stringify body fm =
     ''---'' @ nl @ concat (map example_yaml_line fm) @ ''---'' @ nl @ body @ nl"

definition example_libs :: libs where
  "example_libs =
     \<lparr>resolve = (\<lambda>base loc. base @ ''/'' @ (if loc \<noteq> [] \<and> last loc = CHR ''/'' then butlast loc else loc)),
      join = (\<lambda>a b. (if a \<noteq> [] \<and> last a = CHR ''/'' then a else a @ ''/'') @ b),
      glob = (\<lambda>ps. if ps = [''/proj/.cursor/rules/**/*.mdc'']
                    then [''/proj/.cursor/rules/typescript.mdc''] else []),
      matter = example_matter,
      stringify = example_stringify\<rparr>"

definition example_fs :: fsys where
  "example_fs =
     \<lparr>nodes = [''/proj/.cursor/rules'' \<mapsto> Dir,
               ''/proj/.cursor/rules/typescript.mdc'' \<mapsto> File typescript_mdc,
               ''/proj/AGENTS.md'' \<mapsto> File agents_md],
      faults = Map.empty,
      writes = []\<rparr>"

definition empty_fs :: fsys where
  "empty_fs = \<lparr>nodes = Map.empty, faults = Map.empty, writes = []\<rparr>"

definition example_rule :: "string \<Rightarrow> string \<Rightarrow> Rule" where
  "example_rule nm body =
     \<lparr>name = nm, description = [], content = body, type = auto_attached,
      patterns = Some [''src/**/*.ts''], metadata = [], source = cursor\<rparr>"


definition example_codex_detection :: DetectionResult where
  "example_codex_detection =
     \<lparr>editor = codex,
      rules = [\<lparr>name = ''style'', description = ''style rules from Codex CLI'',
                content = ''Use tabs'', type = always, patterns = None,
                metadata = [(''filePath'', MStr ''/proj/AGENTS.md''), (''section'', MStr ''style'')],
                source = codex\<rparr>,
               \<lparr>name = ''tests'', description = ''tests rules from Codex CLI'',
                content = ''Write tests'', type = always, patterns = None,
                metadata = [(''filePath'', MStr ''/proj/AGENTS.md''), (''section'', MStr ''tests'')],
                source = codex\<rparr>],
      location = ''/proj/AGENTS.md'', ruleCount = 2\<rparr>"

definition example_cursor_detection :: DetectionResult where
  "example_cursor_detection =
     \<lparr>editor = cursor,
      rules = [\<lparr>name = ''typescript'', description = [],
                content = ''# TS'' @ nl @ ''- rule'', type = always, patterns = None,
                metadata = [(''filePath'', MStr ''/proj/.cursor/rules/typescript.mdc''),
                            (''size'', MNum 37)],
                source = cursor\<rparr>],
      location = ''/proj/.cursor/rules'', ruleCount = 1\<rparr>"

definition faulty_fs :: fsys where
  "faulty_fs =
     \<lparr>nodes = Map.empty,
      faults = [''/proj/AGENTS.md'' \<mapsto> ''EACCES: permission denied, open /proj/AGENTS.md''],
      writes = []\<rparr>"

definition example_universal_rule :: "string \<Rightarrow> string \<Rightarrow> UniversalRule" where
  "example_universal_rule nm body =
     \<lparr>u_id = ''0'', u_name = nm, u_type = u_pattern, u_content = body,
      u_patterns = Some [''src/**/*.ts''], u_context = None, u_description = None,
      u_targetEditors = [claude_code]\<rparr>"

definition claude_md_written :: string where
  "claude_md_written = ''# CLAUDE.md'' @ nl @ nl @
     ''This file provides guidance to Claude Code when working with code in this repository.'' @
     nl @ nl @ ''## ts'' @ nl @ nl @ ''Use strict types.''"

definition claude_md_added :: string where
  "claude_md_added = ''# AI Assistant Guidelines'' @ nl @ nl @ nl @ ''## ts'' @ nl @ nl @
     ''Use strict types.'' @ nl"

section \<open>Display names\<close>

lemma getEditorByDisplayName_unfold:
  "getEditorByDisplayName n =
    (if n = ''Cursor'' then Some cursor
     else if n = ''Windsurf'' then Some windsurf
     else if n = ''Cline'' then Some cline
     else if n = ''VSCode'' then Some vscode
     else if n = ''Codex CLI'' \<or> n = ''OpenCode'' \<or> n = ''VSCode Agents''
             \<or> n = ''AGENTS.md Compatible'' then Some codex
     else if n = ''Claude Code'' then Some claude_code
     else if n = ''Qoder'' then Some qoder
     else if n = ''Trae'' then Some trae
     else if n = ''QwenCoder'' then Some qwencoder
     else None)"
  unfolding getEditorByDisplayName_def editor_keys_def
  by (simp add: Let_def eq_commute)

lemma getDisplayNamesForEditor_simps:
  "getDisplayNamesForEditor cursor = [''Cursor'']"
  "getDisplayNamesForEditor windsurf = [''Windsurf'']"
  "getDisplayNamesForEditor cline = [''Cline'']"
  "getDisplayNamesForEditor vscode = [''VSCode'']"
  "getDisplayNamesForEditor codex =
     [''Codex CLI'', ''OpenCode'', ''VSCode Agents'', ''AGENTS.md Compatible'']"
  "getDisplayNamesForEditor claude_code = [''Claude Code'']"
  "getDisplayNamesForEditor qoder = [''Qoder'']"
  "getDisplayNamesForEditor trae = [''Trae'']"
  "getDisplayNamesForEditor qwencoder = [''QwenCoder'']"
  by (simp_all add: getDisplayNamesForEditor_def)

lemma display_name_resolves:
  "n \<in> set (getDisplayNamesForEditor e) \<Longrightarrow> getEditorByDisplayName n = Some e"
  by (cases e) (auto simp: getDisplayNamesForEditor_simps getEditorByDisplayName_unfold)

lemma resolved_is_display_name:
  "getEditorByDisplayName n = Some e \<Longrightarrow> n \<in> set (getDisplayNamesForEditor e)"
  unfolding getEditorByDisplayName_unfold
  by (cases e) (simp_all add: getDisplayNamesForEditor_simps split: if_splits)

text \<open>
  C8. Every display name of an editor, aliases included, resolves back to that editor,
  and a name that is no editor's display name or alias resolves to \<open>null\<close>.
\<close>

theorem display_name_round_trip:
  "(n \<in> set (getDisplayNamesForEditor e) \<longrightarrow> getEditorByDisplayName n = Some e) \<and>
   ((\<forall>e'. n \<notin> set (getDisplayNamesForEditor e')) \<longrightarrow> getEditorByDisplayName n = None)"
proof (intro conjI impI)
  assume "n \<in> set (getDisplayNamesForEditor e)"
  then show "getEditorByDisplayName n = Some e" by (rule display_name_resolves)
next
  assume none: "\<forall>e'. n \<notin> set (getDisplayNamesForEditor e')"
  show "getEditorByDisplayName n = None"
  proof (cases "getEditorByDisplayName n")
    case None
    then show ?thesis .
  next
    case (Some e')
    then have "n \<in> set (getDisplayNamesForEditor e')" by (rule resolved_is_display_name)
    with none show ?thesis by blast
  qed
qed

theorem display_name_round_trip_witness:
  "''OpenCode'' \<in> set (getDisplayNamesForEditor codex) \<and>
   getEditorByDisplayName ''OpenCode'' = Some codex \<and>
   getEditorByDisplayName ''Emacs'' = None"
proof -
  have a: "''OpenCode'' \<in> set (getDisplayNamesForEditor codex)"
    by (simp add: getDisplayNamesForEditor_simps)
  have b: "\<forall>e'. ''Emacs'' \<notin> set (getDisplayNamesForEditor e')"
  proof
    fix e' show "''Emacs'' \<notin> set (getDisplayNamesForEditor e')"
      by (cases e') (simp_all add: getDisplayNamesForEditor_simps)
  qed
  from a display_name_round_trip[of "''OpenCode''" codex]
  have c: "getEditorByDisplayName ''OpenCode'' = Some codex" by blast
  from b display_name_round_trip[of "''Emacs''" cursor]
  have d: "getEditorByDisplayName ''Emacs'' = None" by blast
  from a c d show ?thesis by blast
qed


section \<open>Detection\<close>

lemma set_insert_by: "set (insert_by cmp x xs) = insert x (set xs)"
  by (induction xs) auto

lemma set_sort_by: "set (sort_by cmp xs) = set xs"
  unfolding sort_by_def by (induction xs) (auto simp: set_insert_by)

lemma distinct_map_insert_by:
  "distinct (map f (insert_by cmp x xs)) = (f x \<notin> f ` set xs \<and> distinct (map f xs))"
  by (induction xs) (auto simp: set_insert_by)

lemma distinct_map_sort_by: "distinct (map f (sort_by cmp xs)) = distinct (map f xs)"
  unfolding sort_by_def
  by (induction xs) (auto simp: distinct_map_insert_by set_sort_by[unfolded sort_by_def])

lemma sorted_insert_by_desc:
  "sorted_wrt (\<lambda>a b. ruleCount b \<le> ruleCount a) xs
   \<Longrightarrow> sorted_wrt (\<lambda>a b. ruleCount b \<le> ruleCount a) (insert_by by_ruleCount_desc x xs)"
  by (induction xs) (auto simp: set_insert_by by_ruleCount_desc_def)

lemma sorted_sort_by_desc:
  "sorted_wrt (\<lambda>a b. ruleCount b \<le> ruleCount a) (sort_by by_ruleCount_desc xs)"
  unfolding sort_by_def by (induction xs) (auto intro: sorted_insert_by_desc)

lemma detectRulesForEditor_fields:
  "detectRulesForEditor L fs ed p = Inr d \<Longrightarrow> editor d = ed \<and> ruleCount d = length (rules d)"
  by (auto simp: detectRulesForEditor_def Let_def split: sum.splits option.splits)

lemma detect_locations_missing:
  "\<forall>loc \<in> set locs. \<not> existsSync fs (resolve L p loc)
   \<Longrightarrow> detect_locations L fs ed p locs st = Inr st"
  by (induction locs) (simp_all add: Let_def)

lemma parseRulesFromLocation_no_faults:
  assumes "faults fs = Map.empty" and "existsSync fs loc"
  shows "\<exists>found. parseRulesFromLocation L fs ed loc = Inr found"
proof -
  from assms(2) obtain n where n: "nodes fs loc = Some n"
    by (auto simp: existsSync_def)
  show ?thesis
  proof (cases n)
    case (File c)
    with n assms(1) show ?thesis
      by (auto simp: parseRulesFromLocation_def statSync_def parseSingleFileWithSections_def
          readFileSync_def split: option.splits)
  next
    case Dir
    with n show ?thesis by (simp add: parseRulesFromLocation_def statSync_def Let_def)
  next
    case Other
    with n show ?thesis by (simp add: parseRulesFromLocation_def statSync_def)
  qed
qed

lemma detect_locations_no_faults:
  assumes "faults fs = Map.empty"
  shows "\<exists>st'. detect_locations L fs ed p locs st = Inr st'"
proof (induction locs arbitrary: st)
  case Nil
  then show ?case by simp
next
  case (Cons loc locs)
  show ?case
  proof (cases "existsSync fs (resolve L p loc)")
    case True
    from parseRulesFromLocation_no_faults[OF assms True]
    obtain found where "parseRulesFromLocation L fs ed (resolve L p loc) = Inr found" by blast
    with True Cons.IH show ?thesis by (simp add: Let_def)
  next
    case False
    with Cons.IH show ?thesis by (simp add: Let_def)
  qed
qed

lemma detectRulesForEditor_no_faults:
  assumes "faults fs = Map.empty"
  shows "\<exists>d. detectRulesForEditor L fs ed p = Inr d"
proof -
  obtain st1 where st1:
    "detect_locations L fs ed p (locations (EDITOR_CONFIGS ed)) ([], []) = Inr st1"
    using detect_locations_no_faults[OF assms] by blast
  show ?thesis
  proof (cases "legacyLocations (EDITOR_CONFIGS ed)")
    case None
    with st1 show ?thesis by (simp add: detectRulesForEditor_def Let_def)
  next
    case (Some legacy)
    obtain st2 where "detect_locations L fs ed p legacy st1 = Inr st2"
      using detect_locations_no_faults[OF assms] by blast
    with st1 Some show ?thesis by (simp add: detectRulesForEditor_def Let_def)
  qed
qed

lemma detect_editors_Inr:
  "detect_editors L fs p eds acc = Inr rs \<Longrightarrow>
     \<exists>ds. list_all2 (\<lambda>e d. detectRulesForEditor L fs e p = Inr d) eds ds
        \<and> rs = acc @ filter (\<lambda>d. 0 < ruleCount d) ds"
proof (induction eds arbitrary: acc)
  case Nil
  then show ?case by simp
next
  case (Cons e eds)
  from Cons.prems obtain d where d: "detectRulesForEditor L fs e p = Inr d"
    and rest: "detect_editors L fs p eds (if ruleCount d > 0 then acc @ [d] else acc) = Inr rs"
    by (auto split: sum.splits)
  from Cons.IH[OF rest] obtain ds where
    ds: "list_all2 (\<lambda>e d. detectRulesForEditor L fs e p = Inr d) eds ds"
    and rs: "rs = (if ruleCount d > 0 then acc @ [d] else acc) @ filter (\<lambda>d. 0 < ruleCount d) ds"
    by blast
  have "list_all2 (\<lambda>e d. detectRulesForEditor L fs e p = Inr d) (e # eds) (d # ds)"
    using d ds by simp
  moreover have "rs = acc @ filter (\<lambda>d. 0 < ruleCount d) (d # ds)"
    using rs by simp
  ultimately show ?case by blast
qed

lemma detect_editors_returns:
  "\<forall>e \<in> set eds. \<exists>d. detectRulesForEditor L fs e p = Inr d
   \<Longrightarrow> \<exists>rs. detect_editors L fs p eds acc = Inr rs"
  by (induction eds arbitrary: acc) auto

lemma detected_editors_in_order:
  "list_all2 (\<lambda>e d. detectRulesForEditor L fs e p = Inr d) eds ds \<Longrightarrow> map editor ds = eds"
  by (induction rule: list_all2_induct) (auto dest: detectRulesForEditor_fields)

lemma distinct_editor_keys: "distinct editor_keys"
  by (simp add: editor_keys_def)

lemma set_editor_keys: "set editor_keys = UNIV"
proof -
  have "e \<in> set editor_keys" for e by (cases e) (simp_all add: editor_keys_def)
  then show ?thesis by blast
qed

lemma detectAllRules_shape:
  assumes "detectAllRules L fs p = Inr rs"
  shows "distinct (map editor rs)"
    and "set rs = {d. \<exists>ed. detectRulesForEditor L fs ed p = Inr d \<and> 0 < ruleCount d}"
    and "sorted_wrt (\<lambda>a b. ruleCount b \<le> ruleCount a) rs"
proof -
  from assms obtain res where res: "detect_editors L fs p editor_keys [] = Inr res"
    and rs: "rs = sort_by by_ruleCount_desc res"
    by (auto simp: detectAllRules_def split: sum.splits)
  from detect_editors_Inr[OF res] obtain ds where
    ds: "list_all2 (\<lambda>e d. detectRulesForEditor L fs e p = Inr d) editor_keys ds"
    and res_eq: "res = filter (\<lambda>d. 0 < ruleCount d) ds"
    by auto
  have "map editor ds = editor_keys" using ds by (rule detected_editors_in_order)
  then have "distinct (map editor ds)" by (simp add: distinct_editor_keys)
  then have "distinct (map editor res)" unfolding res_eq by (rule distinct_map_filter)
  then show "distinct (map editor rs)" by (simp add: rs distinct_map_sort_by)
  have in_ds: "d \<in> set ds \<longleftrightarrow> (\<exists>ed. detectRulesForEditor L fs ed p = Inr d)" for d
  proof
    assume "d \<in> set ds"
    then obtain i where i: "i < length ds" "ds ! i = d" by (auto simp: in_set_conv_nth)
    with ds have "detectRulesForEditor L fs (editor_keys ! i) p = Inr d"
      by (auto simp: list_all2_conv_all_nth)
    then show "\<exists>ed. detectRulesForEditor L fs ed p = Inr d" by blast
  next
    assume "\<exists>ed. detectRulesForEditor L fs ed p = Inr d"
    then obtain ed where ed: "detectRulesForEditor L fs ed p = Inr d" by blast
    have "ed \<in> set editor_keys" by (simp add: set_editor_keys)
    then obtain i where i: "i < length editor_keys" "editor_keys ! i = ed"
      by (auto simp: in_set_conv_nth)
    with ds have "detectRulesForEditor L fs ed p = Inr (ds ! i)" "i < length ds"
      by (auto simp: list_all2_conv_all_nth)
    with ed show "d \<in> set ds" by auto
  qed
  show "set rs = {d. \<exists>ed. detectRulesForEditor L fs ed p = Inr d \<and> 0 < ruleCount d}"
    using in_ds by (auto simp: rs set_sort_by res_eq)
  show "sorted_wrt (\<lambda>a b. ruleCount b \<le> ruleCount a) rs"
    by (simp add: rs sorted_sort_by_desc)
qed

lemma detectAllRules_no_faults:
  assumes "faults fs = Map.empty"
  shows "\<exists>rs. detectAllRules L fs p = Inr rs"
proof -
  have "\<forall>e \<in> set editor_keys. \<exists>d. detectRulesForEditor L fs e p = Inr d"
    using detectRulesForEditor_no_faults[OF assms] by blast
  from detect_editors_returns[OF this]
  obtain res where "detect_editors L fs p editor_keys [] = Inr res" by blast
  then show ?thesis by (simp add: detectAllRules_def)
qed

subsection \<open>The example project\<close>

lemmas string_ops = nl_def newline_def carriage_return_def startsWith_def endsWith_def
  is_space_def is_line_terminator_def trim_def dq_def

lemmas example_texts = typescript_mdc_def globs_string_mdc_def globs_list_mdc_def
  globs_always_mdc_def agents_md_def

lemma example_matter_simps:
  "example_matter typescript_mdc =
     Inr (Matter (''# TS'' @ nl @ ''- rule'') (no_frontmatter\<lparr>fm_alwaysApply := Some True\<rparr>))"
  "example_matter globs_string_mdc =
     Inr (Matter ''Use strict types.'' (no_frontmatter\<lparr>fm_globs := Some (GlobStr ''*.ts, *.tsx'')\<rparr>))"
  "example_matter globs_list_mdc =
     Inr (Matter ''Use strict types.''
            (no_frontmatter\<lparr>fm_globs := Some (GlobList [''*.ts'', ''*.tsx''])\<rparr>))"
  "example_matter globs_always_mdc =
     Inr (Matter ''Use strict types.''
            (no_frontmatter\<lparr>fm_globs := Some (GlobList [''src/**/*.ts'']),
                            fm_alwaysApply := Some True\<rparr>))"
  by (simp_all add: example_matter_def example_texts string_ops)

lemma matter_example_libs: "matter example_libs = example_matter"
  by (simp add: example_libs_def)

lemma example_matter_more:
  "example_matter windsurf_files_md =
     Inr (Matter ''Use strict types.''
            (no_frontmatter\<lparr>fm_alwaysApply := Some True,
                            fm_filesToApplyRule := Some ''src/**/*''\<rparr>))"
  "example_matter qoder_glob_trigger_md =
     Inr (Matter ''Use strict types.''
            (no_frontmatter\<lparr>fm_trigger := Some ''glob'',
                            fm_glob := Some (GlobStr ''**/*.ts,**/*.tsx'')\<rparr>))"
  "example_matter qoder_glob_only_md =
     Inr (Matter ''Use strict types.'' (no_frontmatter\<lparr>fm_glob := Some (GlobStr ''lib/**'')\<rparr>))"
  by (simp_all add: example_matter_def example_texts string_ops windsurf_files_md_def
      qoder_glob_trigger_md_def qoder_glob_only_md_def)

lemma detect_example_missing:
  "detectRulesForEditor example_libs example_fs windsurf ''/proj'' =
     Inr \<lparr>editor = windsurf, rules = [], location = [], ruleCount = 0\<rparr>"
  "detectRulesForEditor example_libs example_fs cline ''/proj'' =
     Inr \<lparr>editor = cline, rules = [], location = [], ruleCount = 0\<rparr>"
  "detectRulesForEditor example_libs example_fs vscode ''/proj'' =
     Inr \<lparr>editor = vscode, rules = [], location = [], ruleCount = 0\<rparr>"
  "detectRulesForEditor example_libs example_fs claude_code ''/proj'' =
     Inr \<lparr>editor = claude_code, rules = [], location = [], ruleCount = 0\<rparr>"
  "detectRulesForEditor example_libs example_fs qoder ''/proj'' =
     Inr \<lparr>editor = qoder, rules = [], location = [], ruleCount = 0\<rparr>"
  "detectRulesForEditor example_libs example_fs trae ''/proj'' =
     Inr \<lparr>editor = trae, rules = [], location = [], ruleCount = 0\<rparr>"
  "detectRulesForEditor example_libs example_fs qwencoder ''/proj'' =
     Inr \<lparr>editor = qwencoder, rules = [], location = [], ruleCount = 0\<rparr>"
  by (simp_all add: detectRulesForEditor_def example_libs_def example_fs_def existsSync_def)

lemma detect_example_codex:
  "detectRulesForEditor example_libs example_fs codex ''/proj'' = Inr example_codex_detection"
  by (simp add: detectRulesForEditor_def example_libs_def example_fs_def existsSync_def
      parseRulesFromLocation_def statSync_def parseSingleFileWithSections_def readFileSync_def
      split_sections_def agents_md_def section_delimiter_def string_ops Let_def
      example_codex_detection_def)

lemma parse_example_typescript:
  "parseRuleContent example_libs cursor ''typescript'' typescript_mdc
     ''/proj/.cursor/rules/typescript.mdc'' =
   \<lparr>name = ''typescript'', description = [], content = ''# TS'' @ nl @ ''- rule'',
    type = always, patterns = None,
    metadata = [(''filePath'', MStr ''/proj/.cursor/rules/typescript.mdc''), (''size'', MNum 37)],
    source = cursor\<rparr>"
  by (simp add: parseRuleContent_def matter_example_libs example_matter_simps
      parse_frontmatter_def editor_specific_def no_frontmatter_def truthy_globs_def Let_def)
     (simp add: typescript_mdc_def string_ops)

lemma example_env:
  "resolve example_libs b l = b @ ''/'' @ (if l \<noteq> [] \<and> last l = CHR ''/'' then butlast l else l)"
  "glob example_libs ps = (if ps = [''/proj/.cursor/rules/**/*.mdc'']
                            then [''/proj/.cursor/rules/typescript.mdc''] else [])"
  "nodes example_fs = [''/proj/.cursor/rules'' \<mapsto> Dir,
                       ''/proj/.cursor/rules/typescript.mdc'' \<mapsto> File typescript_mdc,
                       ''/proj/AGENTS.md'' \<mapsto> File agents_md]"
  "faults example_fs = Map.empty"
  by (simp_all add: example_libs_def example_fs_def)

lemma detect_example_cursor:
  "detectRulesForEditor example_libs example_fs cursor ''/proj'' = Inr example_cursor_detection"
proof -
  have base_name: "fileName_of ''/proj/.cursor/rules/typescript.mdc'' = ''typescript''"
    by (simp add: fileName_of_def last_component_def strip_extension_def Let_def)
  have rule_file:
    "parseRuleFile example_libs example_fs cursor ''/proj/.cursor/rules/typescript.mdc'' =
       Some (parseRuleContent example_libs cursor ''typescript'' typescript_mdc
               ''/proj/.cursor/rules/typescript.mdc'')"
    by (simp add: parseRuleFile_def readFileSync_def example_env base_name)
  have dir: "parseRulesFromLocation example_libs example_fs cursor ''/proj/.cursor/rules'' =
     Inr [parseRuleContent example_libs cursor ''typescript'' typescript_mdc
             ''/proj/.cursor/rules/typescript.mdc'']"
    by (simp add: parseRulesFromLocation_def statSync_def example_env Let_def
        List.map_filter_simps rule_file)
  show ?thesis
    by (simp add: detectRulesForEditor_def Let_def example_env existsSync_def dir
        parse_example_typescript example_cursor_detection_def)
qed

lemma detectAllRules_example:
  "detectAllRules example_libs example_fs ''/proj'' =
     Inr [example_codex_detection, example_cursor_detection]"
  by (simp add: detectAllRules_def editor_keys_def detect_example_missing detect_example_codex
      detect_example_cursor sort_by_def by_ruleCount_desc_def)
     (simp add: example_codex_detection_def example_cursor_detection_def)

text \<open>
  C10. A \<open>DetectionResult\<close> built by \<open>detectRulesForEditor\<close> has \<open>ruleCount\<close> equal to the
  length of its rule list; when none of the editor's locations exists the function
  returns the result with no rule and count zero.
\<close>

theorem detectRulesForEditor_ruleCount:
  "(detectRulesForEditor L fs ed p = Inr d \<longrightarrow> ruleCount d = length (rules d)) \<and>
   ((\<forall>loc \<in> set (locations (EDITOR_CONFIGS ed)) \<union>
              (case legacyLocations (EDITOR_CONFIGS ed) of None \<Rightarrow> {} | Some ls \<Rightarrow> set ls).
        \<not> existsSync fs (resolve L p loc))
     \<longrightarrow> detectRulesForEditor L fs ed p =
           Inr \<lparr>editor = ed, rules = [], location = [], ruleCount = 0\<rparr>)"
proof (intro conjI impI)
  assume "detectRulesForEditor L fs ed p = Inr d"
  then show "ruleCount d = length (rules d)" by (simp add: detectRulesForEditor_fields)
next
  assume missing: "\<forall>loc \<in> set (locations (EDITOR_CONFIGS ed)) \<union>
              (case legacyLocations (EDITOR_CONFIGS ed) of None \<Rightarrow> {} | Some ls \<Rightarrow> set ls).
        \<not> existsSync fs (resolve L p loc)"
  then have primary: "detect_locations L fs ed p (locations (EDITOR_CONFIGS ed)) st = Inr st" for st
    by (intro detect_locations_missing) blast
  show "detectRulesForEditor L fs ed p = Inr \<lparr>editor = ed, rules = [], location = [], ruleCount = 0\<rparr>"
  proof (cases "legacyLocations (EDITOR_CONFIGS ed)")
    case None
    then show ?thesis by (simp add: detectRulesForEditor_def Let_def primary)
  next
    case (Some legacy)
    with missing have "detect_locations L fs ed p legacy st = Inr st" for st
      by (intro detect_locations_missing) simp
    with Some show ?thesis by (simp add: detectRulesForEditor_def Let_def primary)
  qed
qed

theorem detectRulesForEditor_ruleCount_witness:
  "detectRulesForEditor example_libs example_fs codex ''/proj'' = Inr example_codex_detection \<and>
   ruleCount example_codex_detection = length (rules example_codex_detection) \<and>
   length (rules example_codex_detection) = 2 \<and>
   detectRulesForEditor example_libs example_fs windsurf ''/proj'' =
     Inr \<lparr>editor = windsurf, rules = [], location = [], ruleCount = 0\<rparr>"
proof -
  have a: "detectRulesForEditor example_libs example_fs codex ''/proj'' = Inr example_codex_detection"
    by (rule detect_example_codex)
  have b: "\<forall>loc \<in> set (locations (EDITOR_CONFIGS windsurf)) \<union>
              (case legacyLocations (EDITOR_CONFIGS windsurf) of None \<Rightarrow> {} | Some ls \<Rightarrow> set ls).
        \<not> existsSync example_fs (resolve example_libs ''/proj'' loc)"
    by (simp add: existsSync_def example_env)
  from a detectRulesForEditor_ruleCount[of example_libs example_fs codex "''/proj''" example_codex_detection]
  have c: "ruleCount example_codex_detection = length (rules example_codex_detection)" by blast
  from b detectRulesForEditor_ruleCount[of example_libs example_fs windsurf "''/proj''"]
  have d: "detectRulesForEditor example_libs example_fs windsurf ''/proj'' =
     Inr \<lparr>editor = windsurf, rules = [], location = [], ruleCount = 0\<rparr>" by blast
  have e: "length (rules example_codex_detection) = 2" by (simp add: example_codex_detection_def)
  from a c d e show ?thesis by blast
qed

text \<open>
  C1. The list that \<open>detectAllRules\<close> returns holds at most one result per editor, holds
  exactly the results of the editors for which \<open>detectRulesForEditor\<close> found at least one
  rule, and is sorted by descending rule count. The function returns such a list
  whenever no file-system fault is thrown on the way (a read error on a single-file
  location is the one exception that \<open>detectRulesForEditor\<close> lets through).
\<close>

theorem detectAllRules_one_result_per_dialect_sorted:
  "(detectAllRules L fs p = Inr rs \<longrightarrow>
      distinct (map editor rs) \<and>
      set rs = {d. \<exists>ed. detectRulesForEditor L fs ed p = Inr d \<and> 0 < ruleCount d} \<and>
      (\<forall>d \<in> set rs. detectRulesForEditor L fs (editor d) p = Inr d) \<and>
      sorted_wrt (\<lambda>a b. ruleCount b \<le> ruleCount a) rs) \<and>
   (faults fs = Map.empty \<longrightarrow> (\<exists>rs'. detectAllRules L fs p = Inr rs'))"
proof (intro conjI impI)
  assume r: "detectAllRules L fs p = Inr rs"
  show "distinct (map editor rs)" using r by (rule detectAllRules_shape(1))
  show s: "set rs = {d. \<exists>ed. detectRulesForEditor L fs ed p = Inr d \<and> 0 < ruleCount d}"
    using r by (rule detectAllRules_shape(2))
  show "sorted_wrt (\<lambda>a b. ruleCount b \<le> ruleCount a) rs" using r by (rule detectAllRules_shape(3))
  show "\<forall>d \<in> set rs. detectRulesForEditor L fs (editor d) p = Inr d"
  proof
    fix d assume "d \<in> set rs"
    with s obtain ed where ed: "detectRulesForEditor L fs ed p = Inr d" by blast
    then have "editor d = ed" by (simp add: detectRulesForEditor_fields)
    with ed show "detectRulesForEditor L fs (editor d) p = Inr d" by simp
  qed
next
  assume "faults fs = Map.empty"
  then show "\<exists>rs'. detectAllRules L fs p = Inr rs'" by (rule detectAllRules_no_faults)
qed

theorem detectAllRules_one_result_per_dialect_sorted_witness:
  "detectAllRules example_libs example_fs ''/proj'' =
     Inr [example_codex_detection, example_cursor_detection] \<and>
   faults example_fs = Map.empty \<and>
   map editor [example_codex_detection, example_cursor_detection] = [codex, cursor] \<and>
   map ruleCount [example_codex_detection, example_cursor_detection] = [2, 1] \<and>
   distinct (map editor [example_codex_detection, example_cursor_detection]) \<and>
   sorted_wrt (\<lambda>a b. ruleCount b \<le> ruleCount a)
     [example_codex_detection, example_cursor_detection]"
proof -
  have a: "detectAllRules example_libs example_fs ''/proj'' =
     Inr [example_codex_detection, example_cursor_detection]"
    by (rule detectAllRules_example)
  have b: "faults example_fs = Map.empty" by (simp add: example_env)
  have c: "map editor [example_codex_detection, example_cursor_detection] = [codex, cursor]"
    "map ruleCount [example_codex_detection, example_cursor_detection] = [2, 1]"
    by (simp_all add: example_codex_detection_def example_cursor_detection_def)
  from a b detectAllRules_one_result_per_dialect_sorted[of example_libs example_fs "''/proj''"
      "[example_codex_detection, example_cursor_detection]"]
  have "distinct (map editor [example_codex_detection, example_cursor_detection])"
    "sorted_wrt (\<lambda>a b. ruleCount b \<le> ruleCount a)
       [example_codex_detection, example_cursor_detection]"
    by blast+
  with a b c show ?thesis by blast
qed

section \<open>Parsing frontmatter\<close>

lemma parse_frontmatter_type:
  assumes "truthy_globs (fm_globs (m_data parsed))"
    and "ed = qoder \<longrightarrow>
           fm_trigger (m_data parsed) \<notin> {Some ''manual'', Some ''model_decision'', Some ''always_on''}"
    and "parse_frontmatter ed parsed st = (body, d, ps, t)"
  shows "(fm_alwaysApply (m_data parsed) \<noteq> Some True \<longrightarrow> is_pattern_type t)
       \<and> (fm_alwaysApply (m_data parsed) = Some True \<longrightarrow> ed \<noteq> qoder
            \<longrightarrow> \<not> (ed = windsurf \<and> truthy_str (fm_filesToApplyRule (m_data parsed)))
            \<longrightarrow> t = always)"
  using assms
  by (cases ed; cases st)
     (auto simp: parse_frontmatter_def Let_def is_pattern_type_def
           split: option.splits if_splits prod.splits)

lemma editor_specific_keeps:
  assumes "editor_specific ed txt body fp (d, ps, t) = (d', ps', t')"
  shows "(is_pattern_type t \<longrightarrow> is_pattern_type t') \<and> (ed \<noteq> qoder \<longrightarrow> t' = t \<and> ps' = ps)"
  using assms
  by (cases ed) (auto simp: editor_specific_def is_pattern_type_def split: option.splits if_splits)

lemma parseRuleContent_frontmatter:
  assumes "hasYamlFrontmatter (EDITOR_CONFIGS ed)" and "matter L txt = Inr parsed"
  shows "\<exists>body d ps t d' ps' t'.
           parse_frontmatter ed parsed ([], [], always) = (body, d, ps, t)
         \<and> editor_specific ed txt body fp (d, ps, t) = (d', ps', t')
         \<and> type (parseRuleContent L ed nm txt fp) = t'
         \<and> patterns (parseRuleContent L ed nm txt fp) = (if ps' \<noteq> [] then Some ps' else None)"
proof -
  obtain body d ps t where a: "parse_frontmatter ed parsed ([], [], always) = (body, d, ps, t)"
    by (metis prod_cases4)
  obtain d' ps' t' where b: "editor_specific ed txt body fp (d, ps, t) = (d', ps', t')"
    by (metis prod_cases3)
  show ?thesis using assms a b by (simp add: parseRuleContent_def Let_def)
qed

lemma parse_frontmatter_patterns:
  assumes "fm_globs (m_data parsed) = Some g" and "truthy_globs (Some g)"
    and "ed \<noteq> qoder"
    and "\<not> (ed = windsurf \<and> truthy_str (fm_filesToApplyRule (m_data parsed)))"
    and "parse_frontmatter ed parsed st = (body, d, ps, t)"
  shows "ps = globs_list g"
  using assms
  by (cases ed; cases st)
     (auto simp: parse_frontmatter_def Let_def truthy_str_def
           split: option.splits if_splits prod.splits)

lemmas parse_example_unfold = parseRuleContent_def matter_example_libs example_matter_simps
  parse_frontmatter_def editor_specific_def no_frontmatter_def truthy_globs_def Let_def

text \<open>
  C2, as stated, fails: a Cursor rule file whose frontmatter has the glob list
  \<open>src/**/*.ts\<close> and \<open>alwaysApply: true\<close> is parsed with its patterns kept and with type
  \<open>always\<close>, which is none of the pattern types: the \<open>alwaysApply\<close> assignment comes after
  the \<open>globs\<close> assignment and overwrites it.
\<close>

theorem parse_globs_with_alwaysApply_counterexample:
  "patterns (parseRuleContent example_libs cursor ''strict'' globs_always_mdc
               ''/proj/.cursor/rules/strict.mdc'') = Some [''src/**/*.ts''] \<and>
   type (parseRuleContent example_libs cursor ''strict'' globs_always_mdc
               ''/proj/.cursor/rules/strict.mdc'') = always \<and>
   \<not> is_pattern_type (type (parseRuleContent example_libs cursor ''strict'' globs_always_mdc
               ''/proj/.cursor/rules/strict.mdc''))"
  by (simp add: parse_example_unfold is_pattern_type_def)

lemma parse_frontmatter_windsurf_files:
  assumes "fm_filesToApplyRule (m_data parsed) = Some f" and "f \<noteq> []"
    and "parse_frontmatter windsurf parsed st = (body, d, ps, t)"
  shows "ps = [f] \<and> t = glob_pattern"
  using assms
  by (cases st)
     (auto simp: parse_frontmatter_def Let_def truthy_str_def
           split: option.splits if_splits prod.splits)

lemma parse_frontmatter_qoder:
  assumes "parse_frontmatter qoder parsed ([], [], always) = (body, d, ps, t)"
  shows "(fm_trigger (m_data parsed) = Some ''glob'' \<longrightarrow> t = glob_pattern) \<and>
         (fm_glob (m_data parsed) = Some g \<and> truthy_globs (Some g) \<longrightarrow> ps = globs_list g) \<and>
         (fm_trigger (m_data parsed) = None \<and> \<not> truthy_globs (fm_globs (m_data parsed))
            \<longrightarrow> t = always)"
  using assms
  by (auto simp: parse_frontmatter_def Let_def split: option.splits if_splits prod.splits)

lemma editor_specific_qoder:
  assumes "editor_specific qoder txt body fp (d, ps, t) = (d', ps', t')"
  shows "(str_includes txt ''*.'' \<or> str_includes txt ''src/'' \<longrightarrow> t' = specific_files) \<and>
         (\<not> str_includes txt ''*.'' \<and> \<not> str_includes txt ''src/'' \<longrightarrow> t' = t \<and> ps' = ps)"
  using assms
  by (auto simp: editor_specific_def split: option.splits if_splits)

text \<open>
  C2, amended. For a frontmatter dialect whose frontmatter parses, the glob fields act on
  the type as follows.

  A truthy \<open>globs\<close> field, with (for Qoder) no \<open>manual\<close>, \<open>model_decision\<close> or \<open>always_on\<close>
  trigger: the rule gets a pattern type (\<open>auto-attached\<close>, \<open>glob-pattern\<close> or
  \<open>specific-files\<close>) unless \<open>alwaysApply\<close> is \<open>true\<close>; with \<open>alwaysApply: true\<close> the flag wins
  and the type is \<open>always\<close>; in both cases the \<open>globs\<close> value is kept as the patterns of the
  rule. The last two hold for every dialect but Qoder, and for Windsurf when there is no
  \<open>filesToApplyRule\<close>.

  Windsurf with a non-empty \<open>filesToApplyRule\<close>: the type is \<open>glob-pattern\<close> and that value
  is the one pattern, whatever \<open>alwaysApply\<close> says.

  Qoder with a truthy \<open>glob\<close> field: the type is a pattern type when the trigger is \<open>glob\<close>,
  and it is \<open>specific-files\<close> whenever the text of the file contains \<open>*.\<close> or \<open>src/\<close>; a \<open>glob\<close>
  field alone, with no trigger, no \<open>globs\<close> and no such text, leaves the type \<open>always\<close>, the
  \<open>glob\<close> value being kept as the patterns.
\<close>

theorem parse_glob_fields_activation_type:
  assumes "hasYamlFrontmatter (EDITOR_CONFIGS ed)"
    and "matter L txt = Inr parsed"
  shows "(truthy_globs (fm_globs (m_data parsed)) \<and>
          (ed = qoder \<longrightarrow>
             fm_trigger (m_data parsed)
               \<notin> {Some ''manual'', Some ''model_decision'', Some ''always_on''}) \<longrightarrow>
            (fm_alwaysApply (m_data parsed) \<noteq> Some True
               \<longrightarrow> is_pattern_type (type (parseRuleContent L ed nm txt filePath))) \<and>
            (fm_alwaysApply (m_data parsed) = Some True \<and> ed \<noteq> qoder \<and>
             \<not> (ed = windsurf \<and> truthy_str (fm_filesToApplyRule (m_data parsed)))
               \<longrightarrow> type (parseRuleContent L ed nm txt filePath) = always) \<and>
            (fm_globs (m_data parsed) = Some g \<and> ed \<noteq> qoder \<and>
             \<not> (ed = windsurf \<and> truthy_str (fm_filesToApplyRule (m_data parsed)))
               \<longrightarrow> patterns (parseRuleContent L ed nm txt filePath) =
                     (case g of GlobStr s \<Rightarrow> Some [s]
                              | GlobList xs \<Rightarrow> if xs = [] then None else Some xs)))
       \<and> (ed = windsurf \<and> fm_filesToApplyRule (m_data parsed) = Some f \<and> f \<noteq> [] \<longrightarrow>
            type (parseRuleContent L ed nm txt filePath) = glob_pattern \<and>
            patterns (parseRuleContent L ed nm txt filePath) = Some [f])
       \<and> (ed = qoder \<and> truthy_globs (fm_glob (m_data parsed)) \<and>
          fm_trigger (m_data parsed) = Some ''glob'' \<longrightarrow>
            is_pattern_type (type (parseRuleContent L ed nm txt filePath)))
       \<and> (ed = qoder \<and> (str_includes txt ''*.'' \<or> str_includes txt ''src/'') \<longrightarrow>
            type (parseRuleContent L ed nm txt filePath) = specific_files)
       \<and> (ed = qoder \<and> fm_glob (m_data parsed) = Some g' \<and> truthy_globs (Some g') \<and>
          fm_trigger (m_data parsed) = None \<and> \<not> truthy_globs (fm_globs (m_data parsed)) \<and>
          \<not> str_includes txt ''*.'' \<and> \<not> str_includes txt ''src/'' \<longrightarrow>
            type (parseRuleContent L ed nm txt filePath) = always \<and>
            patterns (parseRuleContent L ed nm txt filePath) =
              (case g' of GlobStr s \<Rightarrow> Some [s]
                        | GlobList xs \<Rightarrow> if xs = [] then None else Some xs))"
proof -
  from parseRuleContent_frontmatter[OF assms(1,2), of filePath nm]
  obtain body d ps t d' ps' t' where
    a: "parse_frontmatter ed parsed ([], [], always) = (body, d, ps, t)"
    and b: "editor_specific ed txt body filePath (d, ps, t) = (d', ps', t')"
    and c: "type (parseRuleContent L ed nm txt filePath) = t'"
    and c': "patterns (parseRuleContent L ed nm txt filePath) = (if ps' \<noteq> [] then Some ps' else None)"
    by blast
  note keeps = editor_specific_keeps[OF b]
  have globs_part:
    "truthy_globs (fm_globs (m_data parsed)) \<and>
     (ed = qoder \<longrightarrow>
        fm_trigger (m_data parsed) \<notin> {Some ''manual'', Some ''model_decision'', Some ''always_on''}) \<longrightarrow>
       (fm_alwaysApply (m_data parsed) \<noteq> Some True \<longrightarrow> is_pattern_type t') \<and>
       (fm_alwaysApply (m_data parsed) = Some True \<and> ed \<noteq> qoder \<and>
        \<not> (ed = windsurf \<and> truthy_str (fm_filesToApplyRule (m_data parsed))) \<longrightarrow> t' = always) \<and>
       (fm_globs (m_data parsed) = Some g \<and> ed \<noteq> qoder \<and>
        \<not> (ed = windsurf \<and> truthy_str (fm_filesToApplyRule (m_data parsed)))
          \<longrightarrow> (if ps' \<noteq> [] then Some ps' else None) =
                (case g of GlobStr s \<Rightarrow> Some [s]
                         | GlobList xs \<Rightarrow> if xs = [] then None else Some xs))"
  proof (intro impI)
    assume h: "truthy_globs (fm_globs (m_data parsed)) \<and>
     (ed = qoder \<longrightarrow>
        fm_trigger (m_data parsed) \<notin> {Some ''manual'', Some ''model_decision'', Some ''always_on''})"
    then have h1: "truthy_globs (fm_globs (m_data parsed))"
      and h2: "ed = qoder \<longrightarrow>
        fm_trigger (m_data parsed) \<notin> {Some ''manual'', Some ''model_decision'', Some ''always_on''}"
      by simp_all
    note ty = parse_frontmatter_type[OF h1 h2 a]
    have pat: "fm_globs (m_data parsed) = Some g \<and> ed \<noteq> qoder \<and>
        \<not> (ed = windsurf \<and> truthy_str (fm_filesToApplyRule (m_data parsed)))
          \<longrightarrow> (if ps' \<noteq> [] then Some ps' else None) =
                (case g of GlobStr s \<Rightarrow> Some [s]
                         | GlobList xs \<Rightarrow> if xs = [] then None else Some xs)"
    proof (intro impI)
      assume k: "fm_globs (m_data parsed) = Some g \<and> ed \<noteq> qoder \<and>
        \<not> (ed = windsurf \<and> truthy_str (fm_filesToApplyRule (m_data parsed)))"
      then have k1: "fm_globs (m_data parsed) = Some g" and k2: "ed \<noteq> qoder"
        and k3: "\<not> (ed = windsurf \<and> truthy_str (fm_filesToApplyRule (m_data parsed)))"
        by simp_all
      from h1 k1 have k4: "truthy_globs (Some g)" by simp
      have "ps = globs_list g" using parse_frontmatter_patterns[OF k1 k4 k2 k3 a] .
      moreover have "ps' = ps" using keeps k2 by simp
      ultimately show "(if ps' \<noteq> [] then Some ps' else None) =
                (case g of GlobStr s \<Rightarrow> Some [s]
                         | GlobList xs \<Rightarrow> if xs = [] then None else Some xs)"
        by (cases g) auto
    qed
    from ty keeps pat
    show "(fm_alwaysApply (m_data parsed) \<noteq> Some True \<longrightarrow> is_pattern_type t') \<and>
       (fm_alwaysApply (m_data parsed) = Some True \<and> ed \<noteq> qoder \<and>
        \<not> (ed = windsurf \<and> truthy_str (fm_filesToApplyRule (m_data parsed))) \<longrightarrow> t' = always) \<and>
       (fm_globs (m_data parsed) = Some g \<and> ed \<noteq> qoder \<and>
        \<not> (ed = windsurf \<and> truthy_str (fm_filesToApplyRule (m_data parsed)))
          \<longrightarrow> (if ps' \<noteq> [] then Some ps' else None) =
                (case g of GlobStr s \<Rightarrow> Some [s]
                         | GlobList xs \<Rightarrow> if xs = [] then None else Some xs))"
      by blast
  qed
  have windsurf_part:
    "ed = windsurf \<and> fm_filesToApplyRule (m_data parsed) = Some f \<and> f \<noteq> [] \<longrightarrow>
       t' = glob_pattern \<and> (if ps' \<noteq> [] then Some ps' else None) = Some [f]"
  proof (intro impI)
    assume h: "ed = windsurf \<and> fm_filesToApplyRule (m_data parsed) = Some f \<and> f \<noteq> []"
    then have e: "ed = windsurf" and hf: "fm_filesToApplyRule (m_data parsed) = Some f"
      and ne: "f \<noteq> []"
      by simp_all
    from parse_frontmatter_windsurf_files[OF hf ne a[unfolded e]]
    have "ps = [f]" "t = glob_pattern" by simp_all
    moreover from keeps e have "t' = t" "ps' = ps" by simp_all
    ultimately show "t' = glob_pattern \<and> (if ps' \<noteq> [] then Some ps' else None) = Some [f]"
      by simp
  qed
  have qoder_trigger_part:
    "ed = qoder \<and> truthy_globs (fm_glob (m_data parsed)) \<and>
     fm_trigger (m_data parsed) = Some ''glob'' \<longrightarrow> is_pattern_type t'"
  proof (intro impI)
    assume h: "ed = qoder \<and> truthy_globs (fm_glob (m_data parsed)) \<and>
     fm_trigger (m_data parsed) = Some ''glob''"
    then have e: "ed = qoder" and tr: "fm_trigger (m_data parsed) = Some ''glob''" by simp_all
    from parse_frontmatter_qoder[OF a[unfolded e]] tr have "t = glob_pattern" by blast
    then have "is_pattern_type t" by (simp add: is_pattern_type_def)
    with keeps show "is_pattern_type t'" by blast
  qed
  have qoder_text_part:
    "ed = qoder \<and> (str_includes txt ''*.'' \<or> str_includes txt ''src/'') \<longrightarrow> t' = specific_files"
  proof (intro impI)
    assume h: "ed = qoder \<and> (str_includes txt ''*.'' \<or> str_includes txt ''src/'')"
    then have e: "ed = qoder" and inc: "str_includes txt ''*.'' \<or> str_includes txt ''src/''"
      by simp_all
    from editor_specific_qoder[OF b[unfolded e]] inc show "t' = specific_files" by blast
  qed
  have qoder_glob_only_part:
    "ed = qoder \<and> fm_glob (m_data parsed) = Some g' \<and> truthy_globs (Some g') \<and>
     fm_trigger (m_data parsed) = None \<and> \<not> truthy_globs (fm_globs (m_data parsed)) \<and>
     \<not> str_includes txt ''*.'' \<and> \<not> str_includes txt ''src/'' \<longrightarrow>
       t' = always \<and>
       (if ps' \<noteq> [] then Some ps' else None) =
         (case g' of GlobStr s \<Rightarrow> Some [s]
                   | GlobList xs \<Rightarrow> if xs = [] then None else Some xs)"
  proof (intro impI)
    assume h: "ed = qoder \<and> fm_glob (m_data parsed) = Some g' \<and> truthy_globs (Some g') \<and>
     fm_trigger (m_data parsed) = None \<and> \<not> truthy_globs (fm_globs (m_data parsed)) \<and>
     \<not> str_includes txt ''*.'' \<and> \<not> str_includes txt ''src/''"
    then have e: "ed = qoder"
      and gl: "fm_glob (m_data parsed) = Some g' \<and> truthy_globs (Some g')"
      and tr: "fm_trigger (m_data parsed) = None \<and> \<not> truthy_globs (fm_globs (m_data parsed))"
      and ninc: "\<not> str_includes txt ''*.'' \<and> \<not> str_includes txt ''src/''"
      by simp_all
    from parse_frontmatter_qoder[OF a[unfolded e], of g'] gl tr
    have "ps = globs_list g'" "t = always" by blast+
    moreover from editor_specific_qoder[OF b[unfolded e]] ninc have "t' = t" "ps' = ps"
      by blast+
    ultimately show "t' = always \<and>
       (if ps' \<noteq> [] then Some ps' else None) =
         (case g' of GlobStr s \<Rightarrow> Some [s]
                   | GlobList xs \<Rightarrow> if xs = [] then None else Some xs)"
      by (cases g') auto
  qed
  from globs_part windsurf_part qoder_trigger_part qoder_text_part qoder_glob_only_part
  show ?thesis unfolding c c' by blast
qed

theorem parse_glob_fields_activation_type_witness:
  "is_pattern_type (type (parseRuleContent example_libs cursor ''strict'' globs_list_mdc
                            ''/proj/.cursor/rules/strict.mdc'')) \<and>
   patterns (parseRuleContent example_libs cursor ''strict'' globs_list_mdc
               ''/proj/.cursor/rules/strict.mdc'') = Some [''*.ts'', ''*.tsx''] \<and>
   type (parseRuleContent example_libs cursor ''strict'' globs_always_mdc
           ''/proj/.cursor/rules/strict.mdc'') = always \<and>
   patterns (parseRuleContent example_libs cursor ''strict'' globs_always_mdc
               ''/proj/.cursor/rules/strict.mdc'') = Some [''src/**/*.ts''] \<and>
   type (parseRuleContent example_libs windsurf ''strict'' windsurf_files_md
           ''/proj/.windsurf/rules/strict.md'') = glob_pattern \<and>
   patterns (parseRuleContent example_libs windsurf ''strict'' windsurf_files_md
               ''/proj/.windsurf/rules/strict.md'') = Some [''src/**/*''] \<and>
   str_includes qoder_glob_trigger_md ''*.'' \<and>
   is_pattern_type (type (parseRuleContent example_libs qoder ''strict'' qoder_glob_trigger_md
                            ''/proj/.qoder/rules/strict.md'')) \<and>
   type (parseRuleContent example_libs qoder ''strict'' qoder_glob_trigger_md
           ''/proj/.qoder/rules/strict.md'') = specific_files \<and>
   \<not> str_includes qoder_glob_only_md ''*.'' \<and> \<not> str_includes qoder_glob_only_md ''src/'' \<and>
   type (parseRuleContent example_libs qoder ''strict'' qoder_glob_only_md
           ''/proj/.qoder/rules/strict.md'') = always \<and>
   patterns (parseRuleContent example_libs qoder ''strict'' qoder_glob_only_md
               ''/proj/.qoder/rules/strict.md'') = Some [''lib/**'']"
proof -
  have c: "hasYamlFrontmatter (EDITOR_CONFIGS cursor)"
    and w: "hasYamlFrontmatter (EDITOR_CONFIGS windsurf)"
    and q: "hasYamlFrontmatter (EDITOR_CONFIGS qoder)"
    by simp_all
  have m1: "matter example_libs globs_list_mdc =
     Inr (Matter ''Use strict types.''
            (no_frontmatter\<lparr>fm_globs := Some (GlobList [''*.ts'', ''*.tsx''])\<rparr>))"
    and m2: "matter example_libs globs_always_mdc =
     Inr (Matter ''Use strict types.''
            (no_frontmatter\<lparr>fm_globs := Some (GlobList [''src/**/*.ts'']),
                            fm_alwaysApply := Some True\<rparr>))"
    by (simp_all add: matter_example_libs example_matter_simps)
  have m3: "matter example_libs windsurf_files_md =
     Inr (Matter ''Use strict types.''
            (no_frontmatter\<lparr>fm_alwaysApply := Some True,
                            fm_filesToApplyRule := Some ''src/**/*''\<rparr>))"
    and m4: "matter example_libs qoder_glob_trigger_md =
     Inr (Matter ''Use strict types.''
            (no_frontmatter\<lparr>fm_trigger := Some ''glob'',
                            fm_glob := Some (GlobStr ''**/*.ts,**/*.tsx'')\<rparr>))"
    and m5: "matter example_libs qoder_glob_only_md =
     Inr (Matter ''Use strict types.'' (no_frontmatter\<lparr>fm_glob := Some (GlobStr ''lib/**'')\<rparr>))"
    by (simp_all add: matter_example_libs example_matter_more)
  have i4: "str_includes qoder_glob_trigger_md ''*.''"
    by (simp add: qoder_glob_trigger_md_def string_ops)
  have i5: "\<not> str_includes qoder_glob_only_md ''*.''" "\<not> str_includes qoder_glob_only_md ''src/''"
    by (simp_all add: qoder_glob_only_md_def string_ops)
  have a1: "is_pattern_type (type (parseRuleContent example_libs cursor ''strict'' globs_list_mdc
                            ''/proj/.cursor/rules/strict.mdc''))"
    and a2: "patterns (parseRuleContent example_libs cursor ''strict'' globs_list_mdc
               ''/proj/.cursor/rules/strict.mdc'') = Some [''*.ts'', ''*.tsx'']"
    using parse_glob_fields_activation_type[OF c m1, where nm = "''strict''"
        and filePath = "''/proj/.cursor/rules/strict.mdc''" and g = "GlobList [''*.ts'', ''*.tsx'']"]
    by (simp_all add: no_frontmatter_def truthy_globs_def)
  have b1: "type (parseRuleContent example_libs cursor ''strict'' globs_always_mdc
           ''/proj/.cursor/rules/strict.mdc'') = always"
    and b2: "patterns (parseRuleContent example_libs cursor ''strict'' globs_always_mdc
               ''/proj/.cursor/rules/strict.mdc'') = Some [''src/**/*.ts'']"
    using parse_glob_fields_activation_type[OF c m2, where nm = "''strict''"
        and filePath = "''/proj/.cursor/rules/strict.mdc''" and g = "GlobList [''src/**/*.ts'']"]
    by (simp_all add: no_frontmatter_def truthy_globs_def)
  have c1: "type (parseRuleContent example_libs windsurf ''strict'' windsurf_files_md
           ''/proj/.windsurf/rules/strict.md'') = glob_pattern"
    and c2: "patterns (parseRuleContent example_libs windsurf ''strict'' windsurf_files_md
               ''/proj/.windsurf/rules/strict.md'') = Some [''src/**/*'']"
    using parse_glob_fields_activation_type[OF w m3, where nm = "''strict''"
        and filePath = "''/proj/.windsurf/rules/strict.md''" and f = "''src/**/*''"]
    by (simp_all add: no_frontmatter_def)
  have d1: "is_pattern_type (type (parseRuleContent example_libs qoder ''strict''
              qoder_glob_trigger_md ''/proj/.qoder/rules/strict.md''))"
    and d2: "type (parseRuleContent example_libs qoder ''strict'' qoder_glob_trigger_md
           ''/proj/.qoder/rules/strict.md'') = specific_files"
    using parse_glob_fields_activation_type[OF q m4, where nm = "''strict''"
        and filePath = "''/proj/.qoder/rules/strict.md''"] i4
    by (auto simp: no_frontmatter_def truthy_globs_def)
  have e1: "type (parseRuleContent example_libs qoder ''strict'' qoder_glob_only_md
           ''/proj/.qoder/rules/strict.md'') = always"
    and e2: "patterns (parseRuleContent example_libs qoder ''strict'' qoder_glob_only_md
               ''/proj/.qoder/rules/strict.md'') = Some [''lib/**'']"
    using parse_glob_fields_activation_type[OF q m5, where nm = "''strict''"
        and filePath = "''/proj/.qoder/rules/strict.md''" and g' = "GlobStr ''lib/**''"] i5
    by (simp_all add: no_frontmatter_def truthy_globs_def)
  from a1 a2 b1 b2 c1 c2 i4 d1 d2 i5 e1 e2 show ?thesis by blast
qed

text \<open>
  C3, as stated, fails: the comma-separated string \<open>*.ts, *.tsx\<close> is kept as one
  pattern, while the list gives two.
\<close>

theorem parse_globs_string_vs_list_counterexample:
  "patterns (parseRuleContent example_libs cursor ''strict'' globs_string_mdc
               ''/proj/.cursor/rules/strict.mdc'') = Some [''*.ts, *.tsx''] \<and>
   patterns (parseRuleContent example_libs cursor ''strict'' globs_list_mdc
               ''/proj/.cursor/rules/strict.mdc'') = Some [''*.ts'', ''*.tsx''] \<and>
   patterns (parseRuleContent example_libs cursor ''strict'' globs_string_mdc
               ''/proj/.cursor/rules/strict.mdc'') \<noteq>
   patterns (parseRuleContent example_libs cursor ''strict'' globs_list_mdc
               ''/proj/.cursor/rules/strict.mdc'')"
  by (simp add: parse_example_unfold)

text \<open>
  C3, amended. The parser does not split a glob string: a truthy \<open>globs\<close> field that is a
  string becomes the one-element pattern list holding that string as it is, and a
  \<open>globs\<close> field that is a list is taken over as it is (an empty list leaves the rule
  without patterns). This is so for every frontmatter dialect but Qoder, and for
  Windsurf when \<open>filesToApplyRule\<close> does not replace the patterns.
\<close>

theorem parse_globs_kept_unsplit:
  assumes "hasYamlFrontmatter (EDITOR_CONFIGS ed)"
    and "matter L txt = Inr parsed"
    and "fm_globs (m_data parsed) = Some g" and "truthy_globs (Some g)"
    and "ed \<noteq> qoder"
    and "\<not> (ed = windsurf \<and> truthy_str (fm_filesToApplyRule (m_data parsed)))"
  shows "patterns (parseRuleContent L ed nm txt filePath) =
           (case g of GlobStr s \<Rightarrow> Some [s]
                    | GlobList xs \<Rightarrow> if xs = [] then None else Some xs)"
proof -
  from parseRuleContent_frontmatter[OF assms(1,2), of filePath nm]
  obtain body d ps t d' ps' t' where
    a: "parse_frontmatter ed parsed ([], [], always) = (body, d, ps, t)"
    and b: "editor_specific ed txt body filePath (d, ps, t) = (d', ps', t')"
    and c: "patterns (parseRuleContent L ed nm txt filePath) = (if ps' \<noteq> [] then Some ps' else None)"
    by blast
  have "ps = globs_list g" using parse_frontmatter_patterns[OF assms(3-6) a] .
  moreover have "ps' = ps" using editor_specific_keeps[OF b] assms(5) by simp
  ultimately show ?thesis using c by (cases g) auto
qed

theorem parse_globs_kept_unsplit_witness:
  "hasYamlFrontmatter (EDITOR_CONFIGS cursor) \<and>
   matter example_libs globs_string_mdc =
     Inr (Matter ''Use strict types.'' (no_frontmatter\<lparr>fm_globs := Some (GlobStr ''*.ts, *.tsx'')\<rparr>)) \<and>
   truthy_globs (Some (GlobStr ''*.ts, *.tsx'')) \<and>
   patterns (parseRuleContent example_libs cursor ''strict'' globs_string_mdc
               ''/proj/.cursor/rules/strict.mdc'') = Some [''*.ts, *.tsx'']"
proof -
  have h1: "hasYamlFrontmatter (EDITOR_CONFIGS cursor)" by simp
  have h2: "matter example_libs globs_string_mdc =
     Inr (Matter ''Use strict types.'' (no_frontmatter\<lparr>fm_globs := Some (GlobStr ''*.ts, *.tsx'')\<rparr>))"
    by (simp add: matter_example_libs example_matter_simps)
  have h3: "fm_globs (m_data (Matter ''Use strict types.''
              (no_frontmatter\<lparr>fm_globs := Some (GlobStr ''*.ts, *.tsx'')\<rparr>))) =
            Some (GlobStr ''*.ts, *.tsx'')"
    by simp
  have h4: "truthy_globs (Some (GlobStr ''*.ts, *.tsx''))" by (simp add: truthy_globs_def)
  have h5: "cursor \<noteq> qoder" by simp
  have h6: "\<not> (cursor = windsurf \<and> truthy_str (fm_filesToApplyRule (m_data (Matter ''Use strict types.''
              (no_frontmatter\<lparr>fm_globs := Some (GlobStr ''*.ts, *.tsx'')\<rparr>)))))"
    by simp
  from parse_globs_kept_unsplit[OF h1 h2 h3 h4 h5 h6, of "''strict''" "''/proj/.cursor/rules/strict.mdc''"]
  have "patterns (parseRuleContent example_libs cursor ''strict'' globs_string_mdc
               ''/proj/.cursor/rules/strict.mdc'') = Some [''*.ts, *.tsx'']"
    by simp
  with h1 h2 h4 show ?thesis by blast
qed


section \<open>Conversion\<close>

lemma convert_targets_append:
  "convert_targets L rs base (xs @ ys) st =
     convert_targets L rs base ys (convert_targets L rs base xs st)"
proof (induction xs arbitrary: st)
  case Nil
  then show ?case by simp
next
  case (Cons x xs)
  show ?case
    by (cases st) (simp add: Cons.IH split: option.splits prod.splits sum.splits)
qed

lemma convert_targets_errors_grow:
  "convert_targets L rs base ts (r, fs) = (r', fs') \<Longrightarrow> set (errors r) \<subseteq> set (errors r')"
proof (induction ts arbitrary: r fs)
  case Nil
  then show ?case by simp
next
  case (Cons t ts)
  then show ?case
    by (auto split: option.splits prod.splits sum.splits dest!: Cons.IH)
qed

lemma convert_targets_files_grow:
  "convert_targets L rs base ts (r, fs) = (r', fs')
   \<Longrightarrow> set (outputFiles r) \<subseteq> set (outputFiles r')"
proof (induction ts arbitrary: r fs)
  case Nil
  then show ?case by simp
next
  case (Cons t ts)
  then show ?case
    by (auto split: option.splits prod.splits sum.splits dest!: Cons.IH)
qed

lemma convert_targets_failure_stays:
  "convert_targets L rs base ts (r, fs) = (r', fs') \<Longrightarrow> \<not> success r \<Longrightarrow> \<not> success r'"
proof (induction ts arbitrary: r fs)
  case Nil
  then show ?case by simp
next
  case (Cons t ts)
  from Cons.prems show ?case
    by (auto split: option.splits prod.splits sum.splits dest: Cons.IH)
qed

lemma writeFileSync_Inr:
  "writeFileSync fs p c = (Inr u, fs') \<Longrightarrow>
     faults fs p = None \<and> nodes fs p \<noteq> Some Dir \<and>
     fs' = fs\<lparr>nodes := (nodes fs)(p \<mapsto> File c), writes := writes fs @ [p]\<rparr>"
  by (auto simp: writeFileSync_def split: option.splits node.splits)

lemma writeFileSync_Inl: "writeFileSync fs p c = (Inl m, fs') \<Longrightarrow> fs' = fs"
  by (auto simp: writeFileSync_def split: option.splits node.splits)

lemma writeFileSync_again:
  assumes "writeFileSync fs p c = (Inr u, fs1)"
  shows "writeFileSync fs1 p c = (Inr (), fs1\<lparr>writes := writes fs1 @ [p]\<rparr>)"
proof -
  from writeFileSync_Inr[OF assms]
  have f: "faults fs p = None"
    and fs1: "fs1 = fs\<lparr>nodes := (nodes fs)(p \<mapsto> File c), writes := writes fs @ [p]\<rparr>"
    by simp_all
  show ?thesis by (simp add: writeFileSync_def fs1 f)
qed

lemma write_rules_length:
  "write_rules L ed dir rs files fs = (Inr out, fs') \<Longrightarrow> length out = length files + length rs"
proof (induction rs arbitrary: files fs)
  case Nil
  then show ?case by simp
next
  case (Cons r rs)
  from Cons.prems show ?case
    by (auto simp: Let_def split: prod.splits sum.splits dest!: Cons.IH)
qed

lemma convertToEditor_length:
  assumes "convertToEditor L rs ed base fs = (Inr files, fs')"
  shows "length files = (if is_single_file ed then 1 else length rs)"
proof (cases "is_single_file ed")
  case True
  with assms show ?thesis
    by (auto simp: convertToEditor_def convertToSingleFile_def Let_def split: prod.splits sum.splits)
next
  case False
  with assms show ?thesis
    by (auto simp: convertToEditor_def Let_def split: prod.splits sum.splits if_splits
             dest!: write_rules_length)
qed

lemma single_file_sections_ignore_patterns:
  "single_file_sections ed (map (\<lambda>r. r\<lparr>patterns := P r, type := T r\<rparr>) rs) =
   single_file_sections ed rs"
  by (induction rs) (simp_all add: description_or_def)

lemma write_rules_cline_ignore_patterns:
  "write_rules L cline dir (map (\<lambda>r. r\<lparr>patterns := P r, type := T r\<rparr>) rs) files fs =
   write_rules L cline dir rs files fs"
proof (induction rs arbitrary: files fs)
  case Nil
  then show ?case by simp
next
  case (Cons r rs)
  show ?case
    by (simp add: Let_def convertToCline_def description_or_def converted_from_def
        generateFileName_def Cons.IH split: prod.splits sum.splits)
qed

lemma example_join:
  "join example_libs a b = (if a \<noteq> [] \<and> last a = CHR ''/'' then a else a @ ''/'') @ b"
  by (simp add: example_libs_def)

lemmas convert_single_unfold = convertRules_def initial_result_def getEditorByDisplayName_unfold
  convertToEditor_def is_single_file_def convertToSingleFile_def single_file_path_def
  example_join writeFileSync_def Let_def

text \<open>
  C6. Let \<open>r1\<close> and \<open>fs1\<close> be the result and the file system after the targets \<open>pre\<close>, and
  let \<open>t\<close> be the next target. If \<open>t\<close> names no editor, the run goes on over the remaining
  targets \<open>post\<close> with only \<open>Unknown editor: t\<close> added to the errors. If the serializer of
  \<open>t\<close> fails, the run goes on over \<open>post\<close> with the message recorded and \<open>success\<close> false,
  and it stays false. If the serializer of \<open>t\<close> succeeds, whatever happened before, its
  files are in the final output list.
\<close>

theorem convertRules_continues_after_errors:
  assumes pre: "convert_targets L rs base pre (initial_result, fs) = (r1, fs1)"
  shows "(getEditorByDisplayName t = None \<longrightarrow>
            convertRules L rs (pre @ t # post) base fs =
              convert_targets L rs base post
                (r1\<lparr>errors := errors r1 @ [''Unknown editor: '' @ t]\<rparr>, fs1)
          \<and> ''Unknown editor: '' @ t
               \<in> set (errors (fst (convertRules L rs (pre @ t # post) base fs))))
       \<and> (getEditorByDisplayName t = Some ed \<and> convertToEditor L rs ed base fs1 = (Inl m, fs2) \<longrightarrow>
            convertRules L rs (pre @ t # post) base fs =
              convert_targets L rs base post
                (r1\<lparr>errors := errors r1 @ [''Failed to convert to '' @ t @ '': '' @ error_string m],
                    success := False\<rparr>, fs2)
          \<and> ''Failed to convert to '' @ t @ '': '' @ error_string m
               \<in> set (errors (fst (convertRules L rs (pre @ t # post) base fs)))
          \<and> \<not> success (fst (convertRules L rs (pre @ t # post) base fs)))
       \<and> (getEditorByDisplayName t = Some ed \<and> convertToEditor L rs ed base fs1 = (Inr files, fs2) \<longrightarrow>
            convertRules L rs (pre @ t # post) base fs =
              convert_targets L rs base post
                (r1\<lparr>outputFiles := outputFiles r1 @ files,
                    converted := converted r1 + length files\<rparr>, fs2)
          \<and> set files \<subseteq> set (outputFiles (fst (convertRules L rs (pre @ t # post) base fs))))"
proof (intro conjI impI)
  have split: "convertRules L rs (pre @ t # post) base fs =
      convert_targets L rs base (t # post) (r1, fs1)"
    by (simp only: convertRules_def convert_targets_append pre)
  {
    assume u: "getEditorByDisplayName t = None"
    let ?r = "r1\<lparr>errors := errors r1 @ [''Unknown editor: '' @ t]\<rparr>"
    show eq: "convertRules L rs (pre @ t # post) base fs = convert_targets L rs base post (?r, fs1)"
      by (simp add: split u)
    obtain r' fs' where fin: "convert_targets L rs base post (?r, fs1) = (r', fs')"
      by (cases "convert_targets L rs base post (?r, fs1)") simp
    have res: "fst (convertRules L rs (pre @ t # post) base fs) = r'"
      by (simp only: eq fin fst_conv)
    have "''Unknown editor: '' @ t \<in> set (errors ?r)" by simp
    with convert_targets_errors_grow[OF fin] have "''Unknown editor: '' @ t \<in> set (errors r')"
      by blast
    then show "''Unknown editor: '' @ t
                 \<in> set (errors (fst (convertRules L rs (pre @ t # post) base fs)))"
      unfolding res .
  }
  {
    assume f: "getEditorByDisplayName t = Some ed \<and> convertToEditor L rs ed base fs1 = (Inl m, fs2)"
    let ?msg = "''Failed to convert to '' @ t @ '': '' @ error_string m"
    let ?r = "r1\<lparr>errors := errors r1 @ [?msg], success := False\<rparr>"
    show eq: "convertRules L rs (pre @ t # post) base fs = convert_targets L rs base post (?r, fs2)"
      using f by (simp add: split)
    obtain r' fs' where fin: "convert_targets L rs base post (?r, fs2) = (r', fs')"
      by (cases "convert_targets L rs base post (?r, fs2)") simp
    have res: "fst (convertRules L rs (pre @ t # post) base fs) = r'"
      by (simp only: eq fin fst_conv)
    have "?msg \<in> set (errors ?r)" by simp
    with convert_targets_errors_grow[OF fin] have "?msg \<in> set (errors r')" by blast
    then show "?msg \<in> set (errors (fst (convertRules L rs (pre @ t # post) base fs)))"
      unfolding res .
    have "\<not> success ?r" by simp
    with convert_targets_failure_stays[OF fin] have "\<not> success r'" by blast
    then show "\<not> success (fst (convertRules L rs (pre @ t # post) base fs))"
      unfolding res .
  }
  {
    assume s: "getEditorByDisplayName t = Some ed \<and> convertToEditor L rs ed base fs1 = (Inr files, fs2)"
    let ?r = "r1\<lparr>outputFiles := outputFiles r1 @ files, converted := converted r1 + length files\<rparr>"
    show eq: "convertRules L rs (pre @ t # post) base fs = convert_targets L rs base post (?r, fs2)"
      using s by (simp add: split)
    obtain r' fs' where fin: "convert_targets L rs base post (?r, fs2) = (r', fs')"
      by (cases "convert_targets L rs base post (?r, fs2)") simp
    have res: "fst (convertRules L rs (pre @ t # post) base fs) = r'"
      by (simp only: eq fin fst_conv)
    have "set files \<subseteq> set (outputFiles ?r)" by simp
    with convert_targets_files_grow[OF fin] have "set files \<subseteq> set (outputFiles r')" by blast
    then show "set files \<subseteq> set (outputFiles (fst (convertRules L rs (pre @ t # post) base fs)))"
      unfolding res .
  }
qed

theorem convertRules_continues_after_errors_witness:
  "getEditorByDisplayName ''Emacs'' = None \<and>
   getEditorByDisplayName ''Codex CLI'' = Some codex \<and>
   getEditorByDisplayName ''Claude Code'' = Some claude_code \<and>
   fst (convertToEditor example_libs [example_rule ''ts'' ''Use strict types.''] codex ''/proj''
          faulty_fs) = Inl ''EACCES: permission denied, open /proj/AGENTS.md'' \<and>
   fst (convertToEditor example_libs [example_rule ''ts'' ''Use strict types.''] claude_code
          ''/proj'' faulty_fs) = Inr [''/proj/CLAUDE.md''] \<and>
   ''Unknown editor: Emacs'' \<in> set (errors (fst (convertRules example_libs
      [example_rule ''ts'' ''Use strict types.''] [''Emacs'', ''Codex CLI'', ''Claude Code'']
      ''/proj'' faulty_fs))) \<and>
   ''Failed to convert to Codex CLI: Error: EACCES: permission denied, open /proj/AGENTS.md''
      \<in> set (errors (fst (convertRules example_libs
      [example_rule ''ts'' ''Use strict types.''] [''Emacs'', ''Codex CLI'', ''Claude Code'']
      ''/proj'' faulty_fs))) \<and>
   \<not> success (fst (convertRules example_libs
      [example_rule ''ts'' ''Use strict types.''] [''Emacs'', ''Codex CLI'', ''Claude Code'']
      ''/proj'' faulty_fs)) \<and>
   ''/proj/CLAUDE.md'' \<in> set (outputFiles (fst (convertRules example_libs
      [example_rule ''ts'' ''Use strict types.''] [''Emacs'', ''Codex CLI'', ''Claude Code'']
      ''/proj'' faulty_fs)))"
proof -
  let ?rs = "[example_rule ''ts'' ''Use strict types.'']"
  let ?r1 = "initial_result\<lparr>errors := [''Unknown editor: Emacs'']\<rparr>"
  let ?r2 = "initial_result\<lparr>errors := [''Unknown editor: Emacs'',
     ''Failed to convert to Codex CLI: Error: EACCES: permission denied, open /proj/AGENTS.md''],
     success := False\<rparr>"
  let ?fs3 = "faulty_fs\<lparr>nodes := (nodes faulty_fs)(''/proj/CLAUDE.md'' \<mapsto> File claude_md_written),
                       writes := writes faulty_fs @ [''/proj/CLAUDE.md'']\<rparr>"
  have n1: "getEditorByDisplayName ''Emacs'' = None"
    and n2: "getEditorByDisplayName ''Codex CLI'' = Some codex"
    and n3: "getEditorByDisplayName ''Claude Code'' = Some claude_code"
    by (simp_all add: getEditorByDisplayName_unfold)
  have e2: "convertToEditor example_libs ?rs codex ''/proj'' faulty_fs =
              (Inl ''EACCES: permission denied, open /proj/AGENTS.md'', faulty_fs)"
    by (simp add: convertToEditor_def is_single_file_def convertToSingleFile_def
        single_file_path_def example_join writeFileSync_def faulty_fs_def Let_def)
  have e3: "convertToEditor example_libs ?rs claude_code ''/proj'' faulty_fs =
              (Inr [''/proj/CLAUDE.md''], ?fs3)"
    by (simp add: convertToEditor_def is_single_file_def convertToSingleFile_def
        single_file_path_def example_join writeFileSync_def faulty_fs_def Let_def
        single_file_header_def example_rule_def description_or_def claude_md_written_def)
  have p0: "convert_targets example_libs ?rs ''/proj'' [] (initial_result, faulty_fs) =
              (initial_result, faulty_fs)"
    by simp
  have p1: "convert_targets example_libs ?rs ''/proj'' [''Emacs''] (initial_result, faulty_fs) =
              (?r1, faulty_fs)"
    by (simp add: n1 initial_result_def)
  have p2: "convert_targets example_libs ?rs ''/proj'' [''Emacs'', ''Codex CLI'']
              (initial_result, faulty_fs) = (?r2, faulty_fs)"
    by (simp add: n1 n2 e2 initial_result_def error_string_def)
  let ?all = "fst (convertRules example_libs ?rs [''Emacs'', ''Codex CLI'', ''Claude Code'']
                     ''/proj'' faulty_fs)"
  note w0 = convertRules_continues_after_errors[OF p0,
      where t = "''Emacs''" and post = "[''Codex CLI'', ''Claude Code'']"]
  note a0 = w0[THEN conjunct1, THEN mp, OF n1, THEN conjunct2]
  have a: "''Unknown editor: Emacs'' \<in> set (errors ?all)"
    using a0 by simp
  note w1 = convertRules_continues_after_errors[OF p1,
      where t = "''Codex CLI''" and post = "[''Claude Code'']"]
  note b0 = w1[THEN conjunct2, THEN conjunct1, THEN mp, OF conjI[OF n2 e2], THEN conjunct2]
  have b: "''Failed to convert to Codex CLI: Error: EACCES: permission denied, open /proj/AGENTS.md''
             \<in> set (errors ?all)"
    and c: "\<not> success ?all"
    using b0 by (simp_all add: error_string_def)
  note w2 = convertRules_continues_after_errors[OF p2,
      where t = "''Claude Code''" and post = "[]"]
  note d0 = w2[THEN conjunct2, THEN conjunct2, THEN mp, OF conjI[OF n3 e3], THEN conjunct2]
  have d: "''/proj/CLAUDE.md'' \<in> set (outputFiles ?all)"
    using d0 by simp
  from n1 n2 n3 e2 e3 a b c d show ?thesis by simp
qed


text \<open>
  C7. Converting the same rules twice to a single-file target leaves the file system
  after the second run as it was after the first, with the same result: the shared file
  holds the header and one section per rule, rebuilt from the rule list, so the
  sections read back from it are the same. Each run that succeeds writes the file
  exactly once, whatever the number of rules; a run that fails writes nothing.
\<close>

theorem convert_single_file_idempotent:
  assumes "getEditorByDisplayName t = Some ed" and "is_single_file ed"
    and "convertRules L rs [t] base fs = (r1, fs1)"
    and "convertRules L rs [t] base fs1 = (r2, fs2)"
  shows "nodes fs2 = nodes fs1 \<and> r2 = r1 \<and>
         parseSingleFileWithSections L fs2 ed (single_file_path L ed base) =
           parseSingleFileWithSections L fs1 ed (single_file_path L ed base) \<and>
         writes fs1 = writes fs @ (if success r1 then [single_file_path L ed base] else []) \<and>
         writes fs2 = writes fs1 @ (if success r1 then [single_file_path L ed base] else []) \<and>
         (success r1 \<longrightarrow>
            nodes fs1 (single_file_path L ed base) =
              Some (File (single_file_header ed @ single_file_sections ed rs)))"
proof -
  let ?p = "single_file_path L ed base"
  let ?txt = "single_file_header ed @ single_file_sections ed rs"
  obtain w fsw where w: "writeFileSync fs ?p ?txt = (w, fsw)"
    by (cases "writeFileSync fs ?p ?txt") simp
  show ?thesis
  proof (cases w)
    case (Inl m)
    with w have same: "fsw = fs" by (auto dest: writeFileSync_Inl)
    from assms(1,2,3) w Inl same
    have r1: "r1 = initial_result\<lparr>errors := [''Failed to convert to '' @ t @ '': '' @ error_string m],
                                  success := False\<rparr>"
      and fs1: "fs1 = fs"
      by (simp_all add: convertRules_def convertToEditor_def convertToSingleFile_def Let_def
          initial_result_def)
    from assms(1,2,4) w Inl same fs1
    have r2: "r2 = r1" and fs2: "fs2 = fs1"
      by (simp_all add: convertRules_def convertToEditor_def convertToSingleFile_def Let_def
          initial_result_def r1)
    show ?thesis by (simp add: r2 fs2 fs1 r1)
  next
    case (Inr u)
    from w Inr have first: "writeFileSync fs ?p ?txt = (Inr u, fsw)" by simp
    from writeFileSync_Inr[OF first]
    have fsw: "fsw = fs\<lparr>nodes := (nodes fs)(?p \<mapsto> File ?txt), writes := writes fs @ [?p]\<rparr>"
      by simp
    from assms(1,2,3) first
    have r1: "r1 = initial_result\<lparr>outputFiles := [?p], converted := 1\<rparr>"
      and fs1: "fs1 = fsw"
      by (simp_all add: convertRules_def convertToEditor_def convertToSingleFile_def Let_def
          initial_result_def)
    from writeFileSync_again[OF first]
    have second: "writeFileSync fs1 ?p ?txt = (Inr (), fs1\<lparr>writes := writes fs1 @ [?p]\<rparr>)"
      by (simp add: fs1)
    from assms(1,2,4) second
    have r2: "r2 = r1" and fs2: "fs2 = fs1\<lparr>writes := writes fs1 @ [?p]\<rparr>"
      by (simp_all add: convertRules_def convertToEditor_def convertToSingleFile_def Let_def
          initial_result_def r1)
    have ok: "success r1" by (simp add: r1 initial_result_def)
    have read: "readFileSync fs2 ?p = readFileSync fs1 ?p"
      by (simp add: readFileSync_def fs2 split: option.splits)
    show ?thesis
      by (simp add: r2 fs2 ok parseSingleFileWithSections_def read[unfolded fs2])
         (simp add: fs1 fsw)
  qed
qed

theorem convert_single_file_idempotent_witness:
  "getEditorByDisplayName ''Codex CLI'' = Some codex \<and> is_single_file codex \<and>
   success (fst (convertRules example_libs
      [example_rule ''a'' ''A'', example_rule ''b'' ''B''] [''Codex CLI''] ''/proj'' empty_fs)) \<and>
   nodes (snd (convertRules example_libs
      [example_rule ''a'' ''A'', example_rule ''b'' ''B''] [''Codex CLI''] ''/proj''
      (snd (convertRules example_libs
         [example_rule ''a'' ''A'', example_rule ''b'' ''B''] [''Codex CLI''] ''/proj'' empty_fs)))) =
   nodes (snd (convertRules example_libs
      [example_rule ''a'' ''A'', example_rule ''b'' ''B''] [''Codex CLI''] ''/proj'' empty_fs)) \<and>
   writes (snd (convertRules example_libs
      [example_rule ''a'' ''A'', example_rule ''b'' ''B''] [''Codex CLI''] ''/proj'' empty_fs)) =
     [''/proj/AGENTS.md'']"
proof -
  let ?rs = "[example_rule ''a'' ''A'', example_rule ''b'' ''B'']"
  let ?run1 = "convertRules example_libs ?rs [''Codex CLI''] ''/proj'' empty_fs"
  let ?run2 = "convertRules example_libs ?rs [''Codex CLI''] ''/proj'' (snd ?run1)"
  have h1: "getEditorByDisplayName ''Codex CLI'' = Some codex"
    by (simp add: getEditorByDisplayName_unfold)
  have h2: "is_single_file codex" by (simp add: is_single_file_def)
  have h3: "?run1 = (fst ?run1, snd ?run1)" by simp
  have h4: "?run2 = (fst ?run2, snd ?run2)" by simp
  note w = convert_single_file_idempotent[OF h1 h2 h3 h4]
  have ok: "success (fst ?run1)"
    by (simp add: convert_single_unfold empty_fs_def)
  have p: "single_file_path example_libs codex ''/proj'' = ''/proj/AGENTS.md''"
    by (simp add: single_file_path_def example_join)
  have ws: "writes empty_fs = []" by (simp add: empty_fs_def)
  from w have a: "nodes (snd ?run2) = nodes (snd ?run1)" by blast
  from w ok have "writes (snd ?run1) = writes empty_fs @ [single_file_path example_libs codex ''/proj'']"
    by simp
  then have b: "writes (snd ?run1) = [''/proj/AGENTS.md'']" by (simp only: p ws append_Nil)
  from h1 h2 ok a b show ?thesis by blast
qed


text \<open>
  C9, as stated, fails: two rules converted without error to the multiplexing target
  Codex CLI give \<open>converted = 1\<close>, the number of files written, not the number of rules.
\<close>

theorem converted_multiplexing_counterexample:
  "length [example_rule ''a'' ''A'', example_rule ''b'' ''B''] = 2 \<and>
   errors (fst (convertRules example_libs [example_rule ''a'' ''A'', example_rule ''b'' ''B'']
                  [''Codex CLI''] ''/proj'' empty_fs)) = [] \<and>
   success (fst (convertRules example_libs [example_rule ''a'' ''A'', example_rule ''b'' ''B'']
                  [''Codex CLI''] ''/proj'' empty_fs)) \<and>
   converted (fst (convertRules example_libs [example_rule ''a'' ''A'', example_rule ''b'' ''B'']
                  [''Codex CLI''] ''/proj'' empty_fs)) = 1"
  by (simp add: convert_single_unfold empty_fs_def)

text \<open>
  C9, amended. \<open>converted\<close> counts the output files: for one known target whose serializer
  succeeds, \<open>converted\<close> is the number of file paths it returns, which is the number of
  rules for a dialect with one file per rule and 1 for a single-file dialect.
\<close>

theorem converted_counts_output_files:
  assumes "getEditorByDisplayName t = Some ed"
    and "convertToEditor L rs ed base fs = (Inr files, fs')"
  shows "converted (fst (convertRules L rs [t] base fs)) = length files \<and>
         length files = (if is_single_file ed then 1 else length rs) \<and>
         outputFiles (fst (convertRules L rs [t] base fs)) = files \<and>
         errors (fst (convertRules L rs [t] base fs)) = [] \<and>
         success (fst (convertRules L rs [t] base fs))"
proof -
  have "fst (convertRules L rs [t] base fs) =
          initial_result\<lparr>outputFiles := outputFiles initial_result @ files,
                         converted := converted initial_result + length files\<rparr>"
    using assms by (simp add: convertRules_def)
  moreover have "length files = (if is_single_file ed then 1 else length rs)"
    using assms(2) by (rule convertToEditor_length)
  ultimately show ?thesis by (simp add: initial_result_def)
qed

theorem converted_counts_output_files_witness:
  "getEditorByDisplayName ''Cline'' = Some cline \<and>
   fst (convertToEditor example_libs [example_rule ''a'' ''A'', example_rule ''b'' ''B''] cline
          ''/proj'' empty_fs) = Inr [''/proj/.clinerules/a.md'', ''/proj/.clinerules/b.md''] \<and>
   converted (fst (convertRules example_libs [example_rule ''a'' ''A'', example_rule ''b'' ''B'']
                  [''Cline''] ''/proj'' empty_fs)) = 2 \<and>
   getEditorByDisplayName ''Codex CLI'' = Some codex \<and>
   fst (convertToEditor example_libs [example_rule ''a'' ''A'', example_rule ''b'' ''B''] codex
          ''/proj'' empty_fs) = Inr [''/proj/AGENTS.md''] \<and>
   converted (fst (convertRules example_libs [example_rule ''a'' ''A'', example_rule ''b'' ''B'']
                  [''Codex CLI''] ''/proj'' empty_fs)) = 1"
proof -
  let ?rs = "[example_rule ''a'' ''A'', example_rule ''b'' ''B'']"
  have n1: "getEditorByDisplayName ''Cline'' = Some cline"
    and n2: "getEditorByDisplayName ''Codex CLI'' = Some codex"
    by (simp_all add: getEditorByDisplayName_unfold)
  obtain fs1 where e1: "convertToEditor example_libs ?rs cline ''/proj'' empty_fs =
      (Inr [''/proj/.clinerules/a.md'', ''/proj/.clinerules/b.md''], fs1)"
    by (simp add: convertToEditor_def is_single_file_def example_join existsSync_def mkdirSync_def
        empty_fs_def writeFileSync_def generateFileName_def example_rule_def
        replace_each_non_alnum_def toLowerCase_def is_lower_alnum_def Let_def)
  obtain fs2 where e2: "convertToEditor example_libs ?rs codex ''/proj'' empty_fs =
      (Inr [''/proj/AGENTS.md''], fs2)"
    by (simp add: convertToEditor_def is_single_file_def convertToSingleFile_def
        single_file_path_def example_join writeFileSync_def empty_fs_def Let_def)
  from converted_counts_output_files[OF n1 e1]
  have a: "converted (fst (convertRules example_libs ?rs [''Cline''] ''/proj'' empty_fs)) = 2"
    by simp
  from converted_counts_output_files[OF n2 e2]
  have b: "converted (fst (convertRules example_libs ?rs [''Codex CLI''] ''/proj'' empty_fs)) = 1"
    by simp
  from n1 n2 e1 e2 a b show ?thesis by simp
qed

lemma convert_without_glob_support_ignores_patterns:
  assumes "\<not> hasGlobSupport (EDITOR_CONFIGS ed)"
  shows "convertToEditor L (map (\<lambda>r. r\<lparr>patterns := P r, type := T r\<rparr>) rs) ed base fs =
         convertToEditor L rs ed base fs"
proof -
  from assms consider "ed = cline" | "ed = codex" | "ed = claude_code" | "ed = qwencoder"
    by (cases ed) simp_all
  then show ?thesis
  proof cases
    case 1
    then show ?thesis
      by (simp add: convertToEditor_def is_single_file_def Let_def
          write_rules_cline_ignore_patterns split: prod.splits sum.splits)
  next
    case 2
    then show ?thesis
      by (simp add: convertToEditor_def is_single_file_def convertToSingleFile_def
          single_file_sections_ignore_patterns)
  next
    case 3
    then show ?thesis
      by (simp add: convertToEditor_def is_single_file_def convertToSingleFile_def
          single_file_sections_ignore_patterns)
  next
    case 4
    then show ?thesis
      by (simp add: convertToEditor_def is_single_file_def convertToSingleFile_def
          single_file_sections_ignore_patterns)
  qed
qed

text \<open>
  C5. A rule of type \<open>pattern\<close> with the pattern list \<open>src/**/*.ts\<close>, added for Claude Code
  by the universal converter: \<open>convertToClaudeCode\<close> builds the note
  \<open>When working with files matching: src/**/*.ts\<close> in its local \<open>content\<close> and then appends
  \<open>rule.content\<close> to \<open>CLAUDE.md\<close>, so the text on disk does not name the pattern. The same
  rule converted by \<open>convertRules\<close> is written by \<open>convertToSingleFile\<close> as the file header,
  the section heading and the rule content; that text does not name the pattern either.
\<close>

theorem claude_code_pattern_hint_not_written:
  "universal_claude_content (example_universal_rule ''ts'' ''Use strict types.'') =
     ''# ts'' @ nl @ nl @ ''When working with files matching: src/**/*.ts'' @ nl @ nl @
     ''Use strict types.'' \<and>
   nodes (snd (universal_convertToClaudeCode (example_universal_rule ''ts'' ''Use strict types.'')
                 empty_fs)) ''CLAUDE.md'' = Some (File claude_md_added) \<and>
   \<not> str_includes claude_md_added ''src/**/*.ts'' \<and>
   patterns (example_rule ''ts'' ''Use strict types.'') = Some [''src/**/*.ts''] \<and>
   \<not> hasGlobSupport (EDITOR_CONFIGS claude_code) \<and>
   success (fst (convertRules example_libs [example_rule ''ts'' ''Use strict types.'']
                   [''Claude Code''] ''/proj'' empty_fs)) \<and>
   nodes (snd (convertRules example_libs [example_rule ''ts'' ''Use strict types.'']
                   [''Claude Code''] ''/proj'' empty_fs)) ''/proj/CLAUDE.md'' =
     Some (File claude_md_written) \<and>
   \<not> str_includes claude_md_written ''src/**/*.ts''"
proof -
  have u1: "universal_claude_content (example_universal_rule ''ts'' ''Use strict types.'') =
     ''# ts'' @ nl @ nl @ ''When working with files matching: src/**/*.ts'' @ nl @ nl @
     ''Use strict types.''"
    by (simp add: universal_claude_content_def example_universal_rule_def startsWith_def Let_def)
  have u2: "nodes (snd (universal_convertToClaudeCode
                 (example_universal_rule ''ts'' ''Use strict types.'') empty_fs)) ''CLAUDE.md'' =
              Some (File claude_md_added)"
    by (simp add: universal_convertToClaudeCode_def example_universal_rule_def readFileSync_def
        writeFileSync_def empty_fs_def claude_md_added_def Let_def)
  have u3: "\<not> str_includes claude_md_added ''src/**/*.ts''"
    by (simp add: claude_md_added_def nl_def startsWith_def)
  have a: "patterns (example_rule ''ts'' ''Use strict types.'') = Some [''src/**/*.ts'']"
    by (simp add: example_rule_def)
  have b: "\<not> hasGlobSupport (EDITOR_CONFIGS claude_code)" by simp
  have c: "convertRules example_libs [example_rule ''ts'' ''Use strict types.'']
             [''Claude Code''] ''/proj'' empty_fs =
           (initial_result\<lparr>outputFiles := [''/proj/CLAUDE.md''], converted := 1\<rparr>,
            empty_fs\<lparr>nodes := [''/proj/CLAUDE.md'' \<mapsto> File claude_md_written],
                     writes := [''/proj/CLAUDE.md'']\<rparr>)"
    by (simp add: convert_single_unfold empty_fs_def single_file_header_def example_rule_def
        description_or_def claude_md_written_def)
  have d: "\<not> str_includes claude_md_written ''src/**/*.ts''"
    by (simp add: claude_md_written_def nl_def startsWith_def)
  from u1 u2 u3 a b c d show ?thesis by (simp add: initial_result_def)
qed

text \<open>
  C4. \<open>generateFileName\<close> replaces each character outside \<open>[a-z0-9]\<close> by its own hyphen:
  the rule name \<open>C++ Tips\<close> gives \<open>c---tips.mdc\<close>, with three hyphens in a row, where the
  file name expression of the universal converter gives \<open>c-tips.mdc\<close>.
\<close>

theorem generateFileName_consecutive_hyphens:
  "generateFileName (example_rule ''C++ Tips'' ''Use strict types.'') cursor = ''c---tips.mdc'' \<and>
   universal_fileName (example_universal_rule ''C++ Tips'' ''Use strict types.'') ''.mdc'' =
     ''c-tips.mdc''"
  by (simp add: generateFileName_def universal_fileName_def example_rule_def
      example_universal_rule_def replace_each_non_alnum_def replace_runs_non_alnum_def
      toLowerCase_def is_lower_alnum_def Let_def)


end
